theory Spec2Isabelle
  imports Complex_Main
begin

section \<open>Utilities (server/src/utils.ts)\<close>

text \<open>
  JavaScript strings are modelled as HOL strings, lists of 8-bit characters read as the code
  points U+0000 to U+00FF; characters beyond U+00FF are not represented. White space and case
  folding follow the source on that range (see \<open>toUpperStr\<close> for the two characters whose
  upper-case form lies beyond it). JavaScript numbers that hold counts and millisecond
  timestamps are \<open>int\<close>; a number that arrives in a payload is a \<open>jsnumber\<close>, finite or not.
\<close>

datatype jsnumber = Finite real | NotFinite

definition clampInt :: "jsnumber \<Rightarrow> int \<Rightarrow> int \<Rightarrow> int" where
  "clampInt val mn mx =
     (case val of
        NotFinite \<Rightarrow> mn
      | Finite v \<Rightarrow> max mn (min mx \<lfloor>v + 1 / 2\<rfloor>))"

definition isUpper :: "char \<Rightarrow> bool" where
  "isUpper c = (c \<in> set ''ABCDEFGHIJKLMNOPQRSTUVWXYZ'')"

definition isLower :: "char \<Rightarrow> bool" where
  "isLower c = (c \<in> set ''abcdefghijklmnopqrstuvwxyz'')"

definition isDigit :: "char \<Rightarrow> bool" where
  "isDigit c = (c \<in> set ''0123456789'')"

definition isSpace :: "char \<Rightarrow> bool" where
  \<comment> \<open>the white space and line terminators that \<open>trim\<close> and \<open>\\s\<close> recognise below U+0100\<close>
  "isSpace c = (of_char c \<in> {9, 10, 11, 12, 13, 32, 160 :: nat})"

definition toLowerChar :: "char \<Rightarrow> char" where
  \<comment> \<open>A-Z, and the capital letters U+00C0 to U+00DE (without the sign U+00D7)\<close>
  "toLowerChar c =
     (case map_of (zip ''ABCDEFGHIJKLMNOPQRSTUVWXYZ'' ''abcdefghijklmnopqrstuvwxyz'') c of
        Some l \<Rightarrow> l
      | None \<Rightarrow>
         (let n = (of_char c :: nat)
          in if 192 \<le> n \<and> n \<le> 222 \<and> n \<noteq> 215 then char_of (n + 32) else c))"

definition toUpperStr :: "char \<Rightarrow> string" where
  \<comment> \<open>a-z, the small letters U+00E0 to U+00FE (without the sign U+00F7), and U+00DF, whose
      upper-case form is "SS"; the upper-case forms of U+00B5 and U+00FF lie beyond U+00FF,
      so these two are left as they are (neither form is a letter A-Z or a digit)\<close>
  "toUpperStr c =
     (case map_of (zip ''abcdefghijklmnopqrstuvwxyz'' ''ABCDEFGHIJKLMNOPQRSTUVWXYZ'') c of
        Some u \<Rightarrow> [u]
      | None \<Rightarrow>
         (let n = (of_char c :: nat)
          in if n = 223 then ''SS''
             else if 224 \<le> n \<and> n \<le> 254 \<and> n \<noteq> 247 then [char_of (n - 32)]
             else [c]))"

definition toLowerCase :: "string \<Rightarrow> string" where
  "toLowerCase s = map toLowerChar s"

definition toUpperCase :: "string \<Rightarrow> string" where
  "toUpperCase s = concat (map toUpperStr s)"

definition trim :: "string \<Rightarrow> string" where
  "trim s = rev (dropWhile isSpace (rev (dropWhile isSpace s)))"

fun startsWith :: "string \<Rightarrow> string \<Rightarrow> bool" where
  "startsWith s [] = True"
| "startsWith [] (c # cs) = False"
| "startsWith (x # xs) (c # cs) = (x = c \<and> startsWith xs cs)"

fun includes_str :: "string \<Rightarrow> string \<Rightarrow> bool" where
  \<comment> \<open>\<open>word.includes(chunk)\<close>: the chunk occurs as a contiguous substring\<close>
  "includes_str [] chunk = (chunk = [])"
| "includes_str (c # cs) chunk = (startsWith (c # cs) chunk \<or> includes_str cs chunk)"

function collapseSpaces :: "string \<Rightarrow> string" where
  \<comment> \<open>\<open>replace(/\\s+/g, " ")\<close>\<close>
  "collapseSpaces [] = []"
| "collapseSpaces (c # cs) =
     (if isSpace c then CHR '' '' # collapseSpaces (dropWhile isSpace cs)
      else c # collapseSpaces cs)"
  by pat_completeness auto
termination
  by (relation "measure length") (auto simp: less_Suc_eq_le length_dropWhile_le)

definition sanitizeRoomCode :: "string \<Rightarrow> string" where
  "sanitizeRoomCode input =
     take 6 (filter (\<lambda>c. isUpper c \<or> isDigit c) (toUpperCase input))"

definition sanitizePlayerName :: "string \<Rightarrow> string" where
  "sanitizePlayerName input =
     take 20 (filter (\<lambda>c. isUpper c \<or> isLower c \<or> isDigit c \<or> c \<in> set '' _-'')
       (collapseSpaces (trim input)))"

definition sanitizeWord :: "string \<Rightarrow> string" where
  "sanitizeWord input = toLowerCase (trim input)"

definition createRoomCode :: "string set \<Rightarrow> string list \<Rightarrow> string option" where
  \<comment> \<open>\<open>attempts\<close> lists the six-character strings that the successive rounds of the random
      loop build; \<open>None\<close> is the exception thrown after 10000 rounds without a free code\<close>
  "createRoomCode existingCodes attempts =
     find (\<lambda>next. next \<notin> existingCodes) (take 10000 attempts)"

definition createPlayerId :: "string \<Rightarrow> string" where
  \<comment> \<open>\<open>suffix\<close> is the random and clock-derived tail of the identifier\<close>
  "createPlayerId suffix = ''p_'' @ suffix"

section \<open>Dictionary (server/src/dictionary.ts)\<close>

record Dictionary =
  enabled :: bool
  size_dict :: nat
  has :: "string \<Rightarrow> bool"
  hasAnyForChunk :: "string \<Rightarrow> string set \<Rightarrow> bool"

fun splitLines :: "string \<Rightarrow> string \<Rightarrow> string list" where
  \<comment> \<open>\<open>raw.split(/\\r?\\n/)\<close>, with the characters of the current line accumulated in reverse\<close>
  "splitLines acc [] = [rev acc]"
| "splitLines acc (c # cs) =
     (if c = CHR 0x0D \<and> (case cs of [] \<Rightarrow> False | d # _ \<Rightarrow> d = CHR 0x0A)
        then rev acc # splitLines [] (tl cs)
      else if c = CHR 0x0A then rev acc # splitLines [] cs
      else splitLines (c # acc) cs)"

definition parseWords :: "string \<Rightarrow> string list" where
  \<comment> \<open>the members of the resulting \<open>Set\<close>, in file order (the set itself is \<open>set (parseWords raw)\<close>)\<close>
  "parseWords raw =
     filter (\<lambda>line. 3 \<le> length line \<and> list_all isLower line)
       (map (\<lambda>line. toLowerCase (trim line)) (splitLines [] raw))"

definition disabledDictionary :: Dictionary where
  "disabledDictionary =
     \<lparr>enabled = False, size_dict = 0, has = (\<lambda>_. True), hasAnyForChunk = (\<lambda>_ _. True)\<rparr>"

definition createDictionary ::
  "string option \<Rightarrow> string option \<Rightarrow> string option \<Rightarrow> Dictionary" where
  \<comment> \<open>\<open>localFile\<close> and \<open>packageFile\<close> are the contents of the two word lists, \<open>None\<close> when
      reading the file throws; the chunk cache only memoises \<open>wordsForChunk\<close> and is left out\<close>
  "createDictionary dictionaryEnabledEnv localFile packageFile =
     (let requested = (dictionaryEnabledEnv \<noteq> Some ''false'') in
      if \<not> requested then disabledDictionary
      else
        (case localFile of
           None \<Rightarrow> disabledDictionary
         | Some localRaw \<Rightarrow>
            (case packageFile of
               None \<Rightarrow> disabledDictionary
             | Some packageRaw \<Rightarrow>
                (let wordsArray = remdups (parseWords packageRaw @ parseWords localRaw) in
                 if length wordsArray = 0 then disabledDictionary
                 else
                   \<lparr>enabled = True,
                    size_dict = length wordsArray,
                    has = (\<lambda>word. toLowerCase word \<in> set wordsArray),
                    hasAnyForChunk = (\<lambda>chunk usedWords.
                      (let candidates =
                         filter (\<lambda>word. includes_str word (toLowerCase chunk)) wordsArray in
                       if length candidates = 0 then False
                       else if usedWords = {} then True
                       else list_ex (\<lambda>word. word \<notin> usedWords) candidates))\<rparr>))))"

section \<open>Data model (server/src/types.ts)\<close>

datatype GamePhase = lobby | in_game | results

record RoomConfig =
  turnSeconds :: int
  startingLives :: int
  dictionaryEnabled :: bool

record PlayerState =
  idP :: string
  name :: string
  joinedAt :: int
  socketId :: "string option"
  connected :: bool
  score :: int
  lives :: int
  eliminated :: bool

record RoomState =
  code :: string
  hostId :: string
  phase :: GamePhase
  config :: RoomConfig
  players :: "PlayerState list"
  usedWords :: "string set"
  usedWordsOrdered :: "string list"
  activePlayerId :: "string option"
  currentChunk :: "string option"
  previousChunk :: "string option"
  timerEndsAt :: "int option"
  winnerId :: "string option"
  lastEvent :: string
  createdAt :: int
  updatedAt :: int
  emptySince :: "int option"

record PublicPlayerState =
  id_pub :: string
  name_pub :: string
  connected_pub :: bool
  score_pub :: int
  lives_pub :: int
  eliminated_pub :: bool
  joinedAt_pub :: int

record PublicRoomState =
  roomCode_pub :: string
  phase_pub :: GamePhase
  hostId_pub :: string
  players_pub :: "PublicPlayerState list"
  config_pub :: RoomConfig
  activePlayerId_pub :: "string option"
  currentChunk_pub :: "string option"
  remainingMs_pub :: int
  usedWords_pub :: "string list"
  winnerId_pub :: "string option"
  lastEvent_pub :: string
  canStart_pub :: bool
  serverTime_pub :: int

section \<open>Game service (server/src/gameService.ts)\<close>

definition DEFAULT_TURN_SECONDS :: int where "DEFAULT_TURN_SECONDS = 10"
definition MIN_TURN_SECONDS :: int where "MIN_TURN_SECONDS = 5"
definition MAX_TURN_SECONDS :: int where "MAX_TURN_SECONDS = 20"
definition DEFAULT_STARTING_LIVES :: int where "DEFAULT_STARTING_LIVES = 3"
definition MIN_STARTING_LIVES :: int where "MIN_STARTING_LIVES = 1"
definition MAX_STARTING_LIVES :: int where "MAX_STARTING_LIVES = 5"
definition MIN_PLAYERS_TO_START :: nat where "MIN_PLAYERS_TO_START = 2"
definition MAX_PLAYERS_PER_ROOM :: nat where "MAX_PLAYERS_PER_ROOM = 12"
definition SUBMIT_RATE_LIMIT_MS :: int where "SUBMIT_RATE_LIMIT_MS = 300"
definition EMPTY_ROOM_TTL_MS :: int where "EMPTY_ROOM_TTL_MS = 5 * 60 * 1000"

definition CHUNKS :: "string list" where
  "CHUNKS =
     [''AR'', ''ER'', ''ING'', ''TION'', ''CH'', ''SH'', ''TH'', ''EA'', ''OU'', ''ST'',
      ''TR'', ''SP'', ''CL'', ''BR'', ''PL'', ''GR'', ''PH'', ''WH'', ''CK'', ''LL'',
      ''MENT'', ''NESS'', ''ABLE'', ''FUL'', ''LESS'', ''AL'', ''OR'', ''EN'', ''IST'', ''OUS'']"

record SocketSession =
  roomCode :: string
  playerId :: string

record OperationResult =
  ok :: bool
  error :: "string option"
  roomCode_res :: "string option"
  playerId_res :: "string option"
  state :: "PublicRoomState option"

text \<open>
  The class \<open>GameService\<close>: its three maps and the dictionary it was constructed with. The
  socket server \<open>io\<close> only carries broadcasts and room membership of the transport and is not
  part of the model, so \<open>broadcastRoom\<close> has no effect on the state. Every handler reads the
  clock once (\<open>now\<close>); a call of \<open>Math.random()\<close> is a parameter \<open>rnd\<close>.
\<close>

record GameService =
  rooms :: "string \<rightharpoonup> RoomState"
  socketSessions :: "string \<rightharpoonup> SocketSession"
  lastSubmitAtBySocket :: "string \<rightharpoonup> int"
  dictionary :: Dictionary

definition newGameService :: "Dictionary \<Rightarrow> GameService" where
  "newGameService dict =
     \<lparr>rooms = Map.empty, socketSessions = Map.empty, lastSubmitAtBySocket = Map.empty,
      dictionary = dict\<rparr>"

definition failure :: "string \<Rightarrow> OperationResult" where
  \<comment> \<open>\<open>{ ok: false, error }\<close>\<close>
  "failure msg =
     \<lparr>ok = False, error = Some msg, roomCode_res = None, playerId_res = None, state = None\<rparr>"

subsection \<open>Private helpers\<close>

definition getPlayer :: "RoomState \<Rightarrow> string \<Rightarrow> PlayerState option" where
  "getPlayer room i = find (\<lambda>player. idP player = i) (players room)"

fun updatePlayer ::
  "string \<Rightarrow> (PlayerState \<Rightarrow> PlayerState) \<Rightarrow> PlayerState list \<Rightarrow> PlayerState list" where
  \<comment> \<open>assignment to fields of the object that \<open>getPlayer\<close> returned: the first player of
      the array with that id is changed in place\<close>
  "updatePlayer i f [] = []"
| "updatePlayer i f (p # ps) = (if idP p = i then f p # ps else p # updatePlayer i f ps)"

fun findIndex :: "('a \<Rightarrow> bool) \<Rightarrow> 'a list \<Rightarrow> nat option" where
  \<comment> \<open>\<open>None\<close> is the result \<open>-1\<close>\<close>
  "findIndex P [] = None"
| "findIndex P (x # xs) = (if P x then Some 0 else map_option Suc (findIndex P xs))"

definition first :: "'a list \<Rightarrow> 'a option" where
  \<comment> \<open>\<open>xs[0] ?? null\<close>\<close>
  "first xs = (case xs of [] \<Rightarrow> None | x # _ \<Rightarrow> Some x)"

definition nth_js :: "'a list \<Rightarrow> int \<Rightarrow> 'a option" where
  \<comment> \<open>\<open>xs[i]\<close>; \<open>None\<close> is \<open>undefined\<close>\<close>
  "nth_js xs i = (if 0 \<le> i \<and> i < int (length xs) then Some (xs ! nat i) else None)"

definition isEligible :: "PlayerState \<Rightarrow> bool" where
  "isEligible player = (connected player \<and> \<not> eliminated player)"

definition getEligiblePlayers :: "RoomState \<Rightarrow> PlayerState list" where
  "getEligiblePlayers room = filter isEligible (players room)"

function scanFrom :: "PlayerState list \<Rightarrow> nat \<Rightarrow> nat \<Rightarrow> PlayerState option" where
  \<comment> \<open>the \<open>for\<close> loop of \<open>getNextEligiblePlayer\<close>, entered at \<open>offset\<close>\<close>
  "scanFrom ps startIndex offset =
     (if offset \<le> length ps then
        (let index = (startIndex + offset) mod length ps;
             candidate = ps ! index
         in if connected candidate \<and> \<not> eliminated candidate then Some candidate
            else scanFrom ps startIndex (offset + 1))
      else None)"
  by pat_completeness auto
termination
  by (relation "measure (\<lambda>(ps, startIndex, offset). Suc (length ps) - offset)") auto

declare scanFrom.simps [simp del]

definition getNextEligiblePlayer :: "RoomState \<Rightarrow> string option \<Rightarrow> PlayerState option" where
  "getNextEligiblePlayer room fromPlayerId =
     (case getEligiblePlayers room of
        [] \<Rightarrow> None
      | e0 # _ \<Rightarrow>
         (case fromPlayerId of
            None \<Rightarrow> Some e0
          | Some f \<Rightarrow>
             (case findIndex (\<lambda>player. idP player = f) (players room) of
                None \<Rightarrow> Some e0
              | Some startIndex \<Rightarrow> scanFrom (players room) startIndex 1)))"

definition chooseChunk :: "string option \<Rightarrow> real \<Rightarrow> string option" where
  \<comment> \<open>\<open>rnd\<close> is the value of \<open>Math.random()\<close>; the result is \<open>None\<close> (\<open>undefined\<close>) only for
      an index outside the array, which no \<open>rnd\<close> in [0, 1) gives. The product is taken over
      the reals: the rounded product of the code may give the neighbouring index for some
      \<open>rnd\<close>, an index of the same array\<close>
  "chooseChunk prevChunk rnd =
     (let pool = filter (\<lambda>chunk. Some chunk \<noteq> prevChunk) CHUNKS;
          source = (if length pool > 0 then pool else CHUNKS)
      in nth_js source \<lfloor>rnd * real (length source)\<rfloor>)"

definition finishGame :: "RoomState \<Rightarrow> PlayerState option \<Rightarrow> int \<Rightarrow> RoomState" where
  "finishGame room winner now =
     room\<lparr>phase := results,
          winnerId := map_option idP winner,
          activePlayerId := None,
          currentChunk := None,
          timerEndsAt := None,
          updatedAt := now,
          lastEvent := (case winner of
                          Some w \<Rightarrow> name w @ '' wins the match.''
                        | None \<Rightarrow> ''Match ended.'')\<rparr>"

definition advanceTurn :: "RoomState \<Rightarrow> string option \<Rightarrow> int \<Rightarrow> real \<Rightarrow> RoomState" where
  "advanceTurn room fromPlayerId now rnd =
     (let eligible = getEligiblePlayers room in
      if length eligible \<le> 1 then finishGame room (first eligible) now
      else
        (case getNextEligiblePlayer room fromPlayerId of
           None \<Rightarrow> finishGame room (first eligible) now
         | Some next \<Rightarrow>
            room\<lparr>activePlayerId := Some (idP next),
                 previousChunk := currentChunk room,
                 currentChunk := chooseChunk (currentChunk room) rnd,
                 timerEndsAt := Some (now + turnSeconds (config room) * 1000)\<rparr>))"

definition ensureHostIsConnected :: "RoomState \<Rightarrow> RoomState" where
  "ensureHostIsConnected room =
     (if (case getPlayer room (hostId room) of
            Some currentHost \<Rightarrow> connected currentHost
          | None \<Rightarrow> False)
      then room
      else
        (case find connected (players room) of
           Some nextHost \<Rightarrow>
             room\<lparr>hostId := idP nextHost, lastEvent := name nextHost @ '' is now host.''\<rparr>
         | None \<Rightarrow> room))"

definition bindSocketSession :: "string \<Rightarrow> string \<Rightarrow> string \<Rightarrow> GameService \<Rightarrow> GameService" where
  "bindSocketSession sock rc pl s =
     s\<lparr>socketSessions := (socketSessions s)(sock \<mapsto> \<lparr>roomCode = rc, playerId = pl\<rparr>)\<rparr>"

definition socketOwnsPlayer :: "GameService \<Rightarrow> string \<Rightarrow> string \<Rightarrow> string \<Rightarrow> bool" where
  "socketOwnsPlayer s sock rc pl =
     (case socketSessions s sock of
        None \<Rightarrow> False
      | Some session \<Rightarrow> roomCode session = rc \<and> playerId session = pl)"

definition connectedCount :: "RoomState \<Rightarrow> nat" where
  \<comment> \<open>\<open>room.players.filter((player) => player.connected).length\<close>\<close>
  "connectedCount room = length (filter connected (players room))"

definition serializeRoom :: "RoomState \<Rightarrow> int \<Rightarrow> PublicRoomState" where
  "serializeRoom room now =
     \<lparr>roomCode_pub = code room,
      phase_pub = phase room,
      hostId_pub = hostId room,
      players_pub = map (\<lambda>player.
          \<lparr>id_pub = idP player, name_pub = name player, connected_pub = connected player,
           score_pub = score player, lives_pub = lives player,
           eliminated_pub = eliminated player, joinedAt_pub = joinedAt player\<rparr>) (players room),
      config_pub = \<lparr>turnSeconds = turnSeconds (config room),
                    startingLives = startingLives (config room),
                    dictionaryEnabled = dictionaryEnabled (config room)\<rparr>,
      activePlayerId_pub = activePlayerId room,
      currentChunk_pub = currentChunk room,
      remainingMs_pub =
        (case timerEndsAt room of
           Some t \<Rightarrow> if phase room = in_game \<and> t \<noteq> 0 then max 0 (t - now) else 0
         | None \<Rightarrow> 0),
      usedWords_pub = usedWordsOrdered room,
      winnerId_pub = winnerId room,
      lastEvent_pub = lastEvent room,
      canStart_pub = (phase room = lobby \<and> connectedCount room \<ge> 2),
      serverTime_pub = now\<rparr>"

definition success :: "RoomState \<Rightarrow> int \<Rightarrow> OperationResult" where
  \<comment> \<open>\<open>{ ok: true, state: this.serializeRoom(room) }\<close>\<close>
  "success room now =
     \<lparr>ok = True, error = None, roomCode_res = None, playerId_res = None,
      state = Some (serializeRoom room now)\<rparr>"

definition successFor :: "RoomState \<Rightarrow> string \<Rightarrow> int \<Rightarrow> OperationResult" where
  \<comment> \<open>\<open>{ ok: true, roomCode, playerId, state: this.serializeRoom(room) }\<close>\<close>
  "successFor room pl now =
     \<lparr>ok = True, error = None, roomCode_res = Some (code room), playerId_res = Some pl,
      state = Some (serializeRoom room now)\<rparr>"

subsection \<open>Room lifecycle\<close>

text \<open>
  Each handler is written as its chain of checks, followed by the mutations it applies to the
  room once the checks have passed; the mutations are named (\<open>addPlayer\<close>, \<open>acceptWord\<close>,
  ...) so that they can be reasoned about on their own.
\<close>

definition newPlayer :: "string \<Rightarrow> string \<Rightarrow> string \<Rightarrow> int \<Rightarrow> int \<Rightarrow> PlayerState" where
  \<comment> \<open>the object literal of \<open>createRoom\<close> and \<open>joinRoom\<close>\<close>
  "newPlayer pl nm sock startLives now =
     \<lparr>idP = pl, name = nm, joinedAt = now, socketId = Some sock, connected = True,
      score = 0, lives = startLives, eliminated = False\<rparr>"

definition newRoom :: "string \<Rightarrow> PlayerState \<Rightarrow> bool \<Rightarrow> int \<Rightarrow> RoomState" where
  "newRoom rc host dictEnabled now =
     \<lparr>code = rc, hostId = idP host, phase = lobby,
      config = \<lparr>turnSeconds = DEFAULT_TURN_SECONDS,
                 startingLives = DEFAULT_STARTING_LIVES,
                 dictionaryEnabled = dictEnabled\<rparr>,
      players = [host], usedWords = {}, usedWordsOrdered = [],
      activePlayerId = None, currentChunk = None, previousChunk = None,
      timerEndsAt = None, winnerId = None,
      lastEvent = ''Room created. Waiting for players.'',
      createdAt = now, updatedAt = now, emptySince = None\<rparr>"

definition createRoom ::
  "string \<Rightarrow> string \<Rightarrow> string list \<Rightarrow> string \<Rightarrow> int \<Rightarrow> GameService
     \<Rightarrow> OperationResult \<times> GameService" where
  \<comment> \<open>when \<open>createRoomCode\<close> throws, the handler ends without having changed anything\<close>
  "createRoom sock nameInput attempts idSuffix now s =
     (let nm = sanitizePlayerName nameInput in
      if nm = [] then (failure ''Enter a valid display name.'', s)
      else
        (case createRoomCode (dom (rooms s)) attempts of
           None \<Rightarrow> (failure ''Could not allocate a unique room code.'', s)
         | Some rc \<Rightarrow>
            (let pl = createPlayerId idSuffix;
                 host = newPlayer pl nm sock DEFAULT_STARTING_LIVES now;
                 room = newRoom rc host (enabled (dictionary s)) now
             in (successFor room pl now,
                 bindSocketSession sock rc pl (s\<lparr>rooms := (rooms s)(rc \<mapsto> room)\<rparr>)))))"

definition addPlayer :: "RoomState \<Rightarrow> PlayerState \<Rightarrow> int \<Rightarrow> RoomState" where
  "addPlayer room player now =
     room\<lparr>players := players room @ [player],
          emptySince := None,
          updatedAt := now,
          lastEvent := name player @ '' joined the room.''\<rparr>"

definition joinRoom ::
  "string \<Rightarrow> string \<Rightarrow> string \<Rightarrow> string \<Rightarrow> int \<Rightarrow> GameService
     \<Rightarrow> OperationResult \<times> GameService" where
  "joinRoom sock roomCodeInput nameInput idSuffix now s =
     (let rc = sanitizeRoomCode roomCodeInput;
          nm = sanitizePlayerName nameInput
      in
      if rc = [] then (failure ''Enter a valid room code.'', s)
      else if nm = [] then (failure ''Enter a valid display name.'', s)
      else
        (case rooms s rc of
           None \<Rightarrow> (failure ''Room not found.'', s)
         | Some room \<Rightarrow>
            if phase room \<noteq> lobby then (failure ''Game already started in this room.'', s)
            else if length (players room) \<ge> MAX_PLAYERS_PER_ROOM
              then (failure ''Room is full.'', s)
            else if list_ex (\<lambda>player. toLowerCase (name player) = toLowerCase nm) (players room)
              then (failure ''Display name already taken in this room.'', s)
            else
              (let pl = createPlayerId idSuffix;
                   player = newPlayer pl nm sock (startingLives (config room)) now;
                   room1 = addPlayer room player now
               in (successFor room1 pl now,
                   bindSocketSession sock (code room1) (idP player)
                     (s\<lparr>rooms := (rooms s)(rc \<mapsto> room1)\<rparr>)))))"

definition rebind :: "string \<Rightarrow> string \<Rightarrow> PlayerState \<Rightarrow> PlayerState" where
  \<comment> \<open>the assignments of \<open>reconnectPlayer\<close> to the player\<close>
  "rebind newName sock p = p\<lparr>name := newName, socketId := Some sock, connected := True\<rparr>"

definition resumeTurn :: "RoomState \<Rightarrow> int \<Rightarrow> real \<Rightarrow> RoomState" where
  \<comment> \<open>the last \<open>if\<close> of \<open>reconnectPlayer\<close>: a match without an active player gets one\<close>
  "resumeTurn room now rnd =
     (if phase room = in_game \<and> activePlayerId room = None then
        (case getNextEligiblePlayer room None of
           Some next \<Rightarrow>
             room\<lparr>activePlayerId := Some (idP next),
                  currentChunk := chooseChunk (currentChunk room) rnd,
                  timerEndsAt := Some (now + turnSeconds (config room) * 1000)\<rparr>
         | None \<Rightarrow> room)
      else room)"

definition rebindPlayer ::
  "RoomState \<Rightarrow> PlayerState \<Rightarrow> string \<Rightarrow> string option \<Rightarrow> int \<Rightarrow> real \<Rightarrow> RoomState" where
  "rebindPlayer room player sock nameInput now rnd =
     (let maybeName = (case nameInput of
                         Some n \<Rightarrow> sanitizePlayerName n
                       | None \<Rightarrow> []);
          duplicateName =
            list_ex (\<lambda>entry. idP entry \<noteq> idP player \<and>
                              toLowerCase (name entry) = toLowerCase maybeName)
              (players room);
          newName =
            (if maybeName \<noteq> [] \<and> maybeName \<noteq> name player \<and> \<not> duplicateName
             then maybeName else name player);
          room1 = room\<lparr>players := updatePlayer (idP player) (rebind newName sock) (players room)\<rparr>;
          room2 = ensureHostIsConnected (room1\<lparr>emptySince := None\<rparr>);
          room3 = resumeTurn room2 now rnd
      in room3\<lparr>updatedAt := now\<rparr>)"

definition reconnectPlayer ::
  "string \<Rightarrow> string \<Rightarrow> string \<Rightarrow> string option \<Rightarrow> int \<Rightarrow> real \<Rightarrow> GameService
     \<Rightarrow> OperationResult \<times> GameService" where
  "reconnectPlayer sock roomCodeInput pl nameInput now rnd s =
     (let rc = sanitizeRoomCode roomCodeInput in
      case rooms s rc of
        None \<Rightarrow> (failure ''Room no longer exists.'', s)
      | Some room \<Rightarrow>
         (case getPlayer room pl of
            None \<Rightarrow> (failure ''Player not found in room.'', s)
          | Some player \<Rightarrow>
             (let room1 = rebindPlayer room player sock nameInput now rnd
              in (successFor room1 (idP player) now,
                  bindSocketSession sock (code room1) (idP player)
                    (s\<lparr>rooms := (rooms s)(rc \<mapsto> room1)\<rparr>)))))"

definition applySettings ::
  "RoomState \<Rightarrow> bool \<Rightarrow> jsnumber option \<Rightarrow> jsnumber option \<Rightarrow> bool option \<Rightarrow> int
     \<Rightarrow> RoomState" where
  \<comment> \<open>\<open>dictEnabled\<close> is \<open>this.dictionary.enabled\<close>; an absent optional field is \<open>None\<close>\<close>
  "applySettings room dictEnabled turnSecondsIn startingLivesIn dictionaryEnabledIn now =
     (let config1 =
            (case turnSecondsIn of
               Some v \<Rightarrow> (config room)
                  \<lparr>turnSeconds := clampInt v MIN_TURN_SECONDS MAX_TURN_SECONDS\<rparr>
             | None \<Rightarrow> config room);
          config2 =
            (case startingLivesIn of
               Some v \<Rightarrow> config1
                  \<lparr>startingLives := clampInt v MIN_STARTING_LIVES MAX_STARTING_LIVES\<rparr>
             | None \<Rightarrow> config1);
          config3 =
            (case dictionaryEnabledIn of
               Some b \<Rightarrow> config2\<lparr>dictionaryEnabled := (b \<and> dictEnabled)\<rparr>
             | None \<Rightarrow> config2)
      in room\<lparr>config := config3, updatedAt := now,
              lastEvent := ''Host updated game settings.''\<rparr>)"

definition updateSettings ::
  "string \<Rightarrow> string \<Rightarrow> string \<Rightarrow> jsnumber option \<Rightarrow> jsnumber option \<Rightarrow> bool option \<Rightarrow> int
     \<Rightarrow> GameService \<Rightarrow> OperationResult \<times> GameService" where
  \<comment> \<open>the payload's fields are passed one by one\<close>
  "updateSettings sock roomCodeInput pl turnSecondsIn startingLivesIn dictionaryEnabledIn now s =
     (let rc = sanitizeRoomCode roomCodeInput in
      case rooms s rc of
        None \<Rightarrow> (failure ''Room not found.'', s)
      | Some room \<Rightarrow>
         if \<not> socketOwnsPlayer s sock rc pl
           then (failure ''Action not allowed for this socket.'', s)
         else if phase room \<noteq> lobby
           then (failure ''Settings can only be changed in lobby.'', s)
         else if hostId room \<noteq> pl
           then (failure ''Only the host can change settings.'', s)
         else
           (let room1 = applySettings room (enabled (dictionary s))
                          turnSecondsIn startingLivesIn dictionaryEnabledIn now
            in (success room1 now, s\<lparr>rooms := (rooms s)(rc \<mapsto> room1)\<rparr>)))"

subsection \<open>Match start, word submission and reset\<close>

definition resetPlayer :: "RoomState \<Rightarrow> PlayerState \<Rightarrow> PlayerState" where
  \<comment> \<open>the body of the loop over \<open>room.players\<close> in \<open>startGame\<close> and \<open>playAgain\<close>\<close>
  "resetPlayer room player =
     player\<lparr>score := 0, lives := startingLives (config room), eliminated := False\<rparr>"

definition prepareMatch :: "RoomState \<Rightarrow> RoomState" where
  \<comment> \<open>the resets of \<open>startGame\<close> before the first player is chosen\<close>
  "prepareMatch room =
     room\<lparr>phase := in_game, usedWords := {}, usedWordsOrdered := [],
          winnerId := None, previousChunk := None,
          players := map (resetPlayer room) (players room)\<rparr>"

definition beginMatch :: "RoomState \<Rightarrow> PlayerState \<Rightarrow> int \<Rightarrow> real \<Rightarrow> RoomState" where
  "beginMatch room firstActive now rnd =
     room\<lparr>activePlayerId := Some (idP firstActive),
          currentChunk := chooseChunk None rnd,
          timerEndsAt := Some (now + turnSeconds (config room) * 1000),
          lastEvent := name firstActive @ '' starts with the bomb.'',
          updatedAt := now\<rparr>"

definition startGame ::
  "string \<Rightarrow> string \<Rightarrow> string \<Rightarrow> int \<Rightarrow> real \<Rightarrow> GameService
     \<Rightarrow> OperationResult \<times> GameService" where
  "startGame sock roomCodeInput pl now rnd s =
     (let rc = sanitizeRoomCode roomCodeInput in
      case rooms s rc of
        None \<Rightarrow> (failure ''Room not found.'', s)
      | Some room \<Rightarrow>
         if \<not> socketOwnsPlayer s sock rc pl
           then (failure ''Action not allowed for this socket.'', s)
         else if hostId room \<noteq> pl
           then (failure ''Only the host can start the game.'', s)
         else if phase room \<noteq> lobby
           then (failure ''Game already running.'', s)
         else if connectedCount room < MIN_PLAYERS_TO_START
           then (failure ''Need at least 2 connected players to start.'', s)
         else
           (let room1 = prepareMatch room
            in case getNextEligiblePlayer room1 None of
                 None \<Rightarrow>
                   (failure ''No eligible players to start the game.'',
                    s\<lparr>rooms := (rooms s)(rc \<mapsto> room1\<lparr>phase := lobby\<rparr>)\<rparr>)
               | Some firstActive \<Rightarrow>
                   (let room2 = beginMatch room1 firstActive now rnd
                    in (success room2 now, s\<lparr>rooms := (rooms s)(rc \<mapsto> room2)\<rparr>))))"

definition acceptWord :: "RoomState \<Rightarrow> PlayerState \<Rightarrow> string \<Rightarrow> int \<Rightarrow> real \<Rightarrow> RoomState" where
  \<comment> \<open>the mutations of \<open>submitWord\<close> once the word has passed every check\<close>
  "acceptWord room player word now rnd =
     (let room1 = room\<lparr>usedWords := insert word (usedWords room),
                       usedWordsOrdered := usedWordsOrdered room @ [word],
                       players := updatePlayer (idP player)
                                    (\<lambda>p. p\<lparr>score := score p + 1\<rparr>) (players room),
                       lastEvent := name player @ '' played '' @
                                    [CHR 0x22] @ word @ [CHR 0x22] @ ''.''\<rparr>
      in (advanceTurn room1 (Some (idP player)) now rnd)\<lparr>updatedAt := now\<rparr>)"

definition submitWord ::
  "string \<Rightarrow> string \<Rightarrow> string \<Rightarrow> string \<Rightarrow> int \<Rightarrow> real \<Rightarrow> GameService
     \<Rightarrow> OperationResult \<times> GameService" where
  "submitWord sock roomCodeInput pl wordInput now rnd s =
     (let lastSubmit = (case lastSubmitAtBySocket s sock of Some t \<Rightarrow> t | None \<Rightarrow> 0) in
      if now - lastSubmit < SUBMIT_RATE_LIMIT_MS
        then (failure ''Submitting too quickly. Slow down slightly.'', s)
      else
        (let s1 = s\<lparr>lastSubmitAtBySocket := (lastSubmitAtBySocket s)(sock \<mapsto> now)\<rparr>;
             rc = sanitizeRoomCode roomCodeInput
         in case rooms s1 rc of
              None \<Rightarrow> (failure ''Room not found.'', s1)
            | Some room \<Rightarrow>
               if \<not> socketOwnsPlayer s1 sock rc pl
                 then (failure ''Action not allowed for this socket.'', s1)
               else if phase room \<noteq> in_game
                 then (failure ''Game is not active.'', s1)
               else
                 (case getPlayer room pl of
                    None \<Rightarrow> (failure ''You are not an active player.'', s1)
                  | Some player \<Rightarrow>
                     if \<not> connected player \<or> eliminated player
                       then (failure ''You are not an active player.'', s1)
                     else if activePlayerId room \<noteq> Some (idP player)
                       then (failure ''It is not your turn.'', s1)
                     else
                       (let word = sanitizeWord wordInput in
                        if \<not> (word \<noteq> [] \<and> list_all isLower word)
                          then (failure ''Word must contain letters A-Z only.'', s1)
                        else if length word < 3
                          then (failure ''Word must be at least 3 letters.'', s1)
                        else if (case map_option toLowerCase (currentChunk room) of
                                   None \<Rightarrow> True
                                 | Some chunk \<Rightarrow> chunk = [] \<or> \<not> includes_str word chunk)
                          then (failure (''Word must include chunk '' @ [CHR 0x22] @
                                   (case currentChunk room of Some c \<Rightarrow> c | None \<Rightarrow> ''null'') @
                                   [CHR 0x22] @ ''.''), s1)
                        else if word \<in> usedWords room
                          then (failure ''Word already used in this match.'', s1)
                        else if dictionaryEnabled (config room) \<and> \<not> has (dictionary s1) word
                          then (failure ''Word not found in dictionary.'', s1)
                        else
                          (let room2 = acceptWord room player word now rnd
                           in (success room2 now,
                               s1\<lparr>rooms := (rooms s1)(rc \<mapsto> room2)\<rparr>))))))"

definition resetMatch :: "RoomState \<Rightarrow> int \<Rightarrow> RoomState" where
  "resetMatch room now =
     room\<lparr>phase := lobby, activePlayerId := None, currentChunk := None,
          previousChunk := None, timerEndsAt := None, winnerId := None,
          usedWords := {}, usedWordsOrdered := [],
          players := map (resetPlayer room) (players room),
          lastEvent := ''Match reset. Host can start a new game.'',
          updatedAt := now\<rparr>"

definition playAgain ::
  "string \<Rightarrow> string \<Rightarrow> string \<Rightarrow> int \<Rightarrow> GameService \<Rightarrow> OperationResult \<times> GameService" where
  "playAgain sock roomCodeInput pl now s =
     (let rc = sanitizeRoomCode roomCodeInput in
      case rooms s rc of
        None \<Rightarrow> (failure ''Room not found.'', s)
      | Some room \<Rightarrow>
         if \<not> socketOwnsPlayer s sock rc pl
           then (failure ''Action not allowed for this socket.'', s)
         else if hostId room \<noteq> pl
           then (failure ''Only the host can reset the match.'', s)
         else if phase room \<noteq> results
           then (failure ''Match has not ended yet.'', s)
         else
           (let room1 = resetMatch room now
            in (success room1 now, s\<lparr>rooms := (rooms s)(rc \<mapsto> room1)\<rparr>)))"

subsection \<open>Disconnects and the scheduler\<close>

definition markDisconnected :: "PlayerState \<Rightarrow> PlayerState" where
  \<comment> \<open>\<open>player.socketId = null; player.connected = false\<close>\<close>
  "markDisconnected p = p\<lparr>socketId := None, connected := False\<rparr>"

definition dropPlayer :: "RoomState \<Rightarrow> PlayerState \<Rightarrow> int \<Rightarrow> real \<Rightarrow> RoomState" where
  \<comment> \<open>what \<open>handleDisconnect\<close> does to the room of the player whose socket was lost\<close>
  "dropPlayer room player now rnd =
     (let room1 = room\<lparr>players := updatePlayer (idP player) markDisconnected (players room)\<rparr>;
          room2 = (if idP player = hostId room1 then ensureHostIsConnected room1 else room1);
          room3 =
            (if phase room2 = in_game then
               (if activePlayerId room2 = Some (idP player) then
                  advanceTurn
                    (room2\<lparr>lastEvent := name player @
                       '' disconnected. Bomb moved to next player.''\<rparr>)
                    (Some (idP player)) now rnd
                else
                  (let eligible = getEligiblePlayers room2 in
                   if length eligible \<le> 1
                   then finishGame room2 (first eligible) now
                   else room2))
             else room2)
      in room3\<lparr>emptySince := (if connectedCount room3 = 0 then Some now else None),
               updatedAt := now\<rparr>)"

definition handleDisconnect :: "string \<Rightarrow> int \<Rightarrow> real \<Rightarrow> GameService \<Rightarrow> GameService" where
  "handleDisconnect sock now rnd s =
     (let session = socketSessions s sock;
          s1 = s\<lparr>socketSessions := (socketSessions s)(sock := None),
                 lastSubmitAtBySocket := (lastSubmitAtBySocket s)(sock := None)\<rparr>
      in case session of
           None \<Rightarrow> s1
         | Some sess \<Rightarrow>
            (case rooms s1 (roomCode sess) of
               None \<Rightarrow> s1
             | Some room \<Rightarrow>
                (case getPlayer room (playerId sess) of
                   None \<Rightarrow> s1
                 | Some player \<Rightarrow>
                    if socketId player \<noteq> Some sock then s1
                    else s1\<lparr>rooms :=
                           (rooms s1)(roomCode sess \<mapsto> dropPlayer room player now rnd)\<rparr>)))"

definition loseLife :: "PlayerState \<Rightarrow> PlayerState" where
  \<comment> \<open>\<open>active.lives = Math.max(0, active.lives - 1)\<close>, then \<open>eliminated = true\<close> at zero\<close>
  "loseLife p =
     (let p1 = p\<lparr>lives := max 0 (lives p - 1)\<rparr>
      in if lives p1 = 0 then p1\<lparr>eliminated := True\<rparr> else p1)"

definition handleTimerExpiry :: "RoomState \<Rightarrow> int \<Rightarrow> real \<Rightarrow> RoomState" where
  "handleTimerExpiry room now rnd =
     (case activePlayerId room of
        None \<Rightarrow> room
      | Some a \<Rightarrow>
         if phase room \<noteq> in_game \<or> a = [] then room
         else
           (let unavailable =
                  (advanceTurn room (Some a) now rnd)
                    \<lparr>lastEvent := ''Bomb moved because active player was unavailable.'',
                     updatedAt := now\<rparr>
            in case getPlayer room a of
                 None \<Rightarrow> unavailable
               | Some active \<Rightarrow>
                  if \<not> connected active \<or> eliminated active then unavailable
                  else
                    (let after = loseLife active;
                         room1 = room\<lparr>players := updatePlayer a loseLife (players room),
                                      lastEvent :=
                                        (if lives after = 0
                                         then name active @ '' exploded and was eliminated.''
                                         else name active @ '' exploded and lost a life.'')\<rparr>
                     in (advanceTurn room1 (Some (idP active)) now rnd)\<lparr>updatedAt := now\<rparr>)))"

definition tickRoom :: "int \<Rightarrow> real \<Rightarrow> RoomState \<Rightarrow> RoomState" where
  \<comment> \<open>the body of the loop of \<open>tick\<close> for one room\<close>
  "tickRoom now rnd room =
     (if phase room \<noteq> in_game then room
      else if (case activePlayerId room of None \<Rightarrow> True | Some a \<Rightarrow> a = [])
                \<or> timerEndsAt room = None then room
      else if (case timerEndsAt room of Some t \<Rightarrow> now \<ge> t | None \<Rightarrow> False)
        then handleTimerExpiry room now rnd
      else room)"

definition tick :: "int \<Rightarrow> (string \<Rightarrow> real) \<Rightarrow> GameService \<Rightarrow> GameService" where
  \<comment> \<open>\<open>rnd c\<close> is the random number drawn while the room with code \<open>c\<close> is handled\<close>
  "tick now rnd s = s\<lparr>rooms := (\<lambda>c. map_option (tickRoom now (rnd c)) (rooms s c))\<rparr>"

definition cleanupRooms :: "int \<Rightarrow> GameService \<Rightarrow> GameService" where
  "cleanupRooms now s =
     s\<lparr>rooms := (\<lambda>c.
        case rooms s c of
          None \<Rightarrow> None
        | Some room \<Rightarrow>
           (case emptySince room of
              Some e \<Rightarrow> if now - e > EMPTY_ROOM_TTL_MS then None else Some room
            | None \<Rightarrow> Some room))\<rparr>"

subsection \<open>The server as a transition system\<close>

text \<open>
  An event is one call of a handler or of a scheduler callback. It carries the socket id of
  the caller, the fields of the payload, the value of the clock and, where the handler may
  draw a random number, that number; \<open>CreateRoom\<close> carries the candidate room codes and the
  tail of the new player id, \<open>JoinRoom\<close> the tail of the new player id, and \<open>Tick\<close> one
  random number for each room code.
\<close>

datatype event =
    CreateRoom string string "string list" string int
  | JoinRoom string string string string int
  | Reconnect string string string "string option" int real
  | UpdateSettings string string string "jsnumber option" "jsnumber option" "bool option" int
  | StartGame string string string int real
  | SubmitWord string string string string int real
  | PlayAgain string string string int
  | Disconnect string int real
  | Tick int "string \<Rightarrow> real"
  | CleanupRooms int

fun step :: "event \<Rightarrow> GameService \<Rightarrow> GameService" where
  "step (CreateRoom sock nm attempts idSuffix now) s =
     snd (createRoom sock nm attempts idSuffix now s)"
| "step (JoinRoom sock rc nm idSuffix now) s = snd (joinRoom sock rc nm idSuffix now s)"
| "step (Reconnect sock rc pl nm now rnd) s = snd (reconnectPlayer sock rc pl nm now rnd s)"
| "step (UpdateSettings sock rc pl ts sl de now) s =
     snd (updateSettings sock rc pl ts sl de now s)"
| "step (StartGame sock rc pl now rnd) s = snd (startGame sock rc pl now rnd s)"
| "step (SubmitWord sock rc pl w now rnd) s = snd (submitWord sock rc pl w now rnd s)"
| "step (PlayAgain sock rc pl now) s = snd (playAgain sock rc pl now s)"
| "step (Disconnect sock now rnd) s = handleDisconnect sock now rnd s"
| "step (Tick now rnd) s = tick now rnd s"
| "step (CleanupRooms now) s = cleanupRooms now s"

fun run :: "event list \<Rightarrow> GameService \<Rightarrow> GameService" where
  "run [] s = s"
| "run (e # es) s = run es (step e s)"

inductive reachable :: "GameService \<Rightarrow> bool" where
  reachable_new: "reachable (newGameService dict)"
| reachable_step: "reachable s \<Longrightarrow> reachable (step e s)"

subsection \<open>Invariants of a room\<close>

definition players_ok :: "RoomState \<Rightarrow> bool" where
  \<comment> \<open>ids are never empty, and a player who is not eliminated has at least one life\<close>
  "players_ok room =
     (1 \<le> startingLives (config room) \<and>
      (\<forall>p \<in> set (players room). idP p \<noteq> [] \<and> (\<not> eliminated p \<longrightarrow> 1 \<le> lives p)))"

definition game_ok :: "RoomState \<Rightarrow> bool" where
  \<comment> \<open>during a match the bomb is with an eligible player, and two or more are eligible\<close>
  "game_ok room =
     (phase room = in_game \<longrightarrow>
        (\<exists>p \<in> set (players room). activePlayerId room = Some (idP p) \<and> isEligible p) \<and>
        2 \<le> length (getEligiblePlayers room))"

definition room_inv :: "RoomState \<Rightarrow> bool" where
  "room_inv room = (game_ok room \<and> players_ok room)"

definition server_inv :: "GameService \<Rightarrow> bool" where
  "server_inv s = (\<forall>c room. rooms s c = Some room \<longrightarrow> room_inv room)"

definition soleWinner :: "RoomState \<Rightarrow> bool" where
  \<comment> \<open>the match is over and the winner is the first eligible player, if there is one\<close>
  "soleWinner room =
     (phase room = results \<and> winnerId room = map_option idP (first (getEligiblePlayers room)))"

subsection \<open>The ways an event changes a room\<close>

inductive roomChange :: "event \<Rightarrow> RoomState \<Rightarrow> RoomState \<Rightarrow> bool" where
  unchanged: "roomChange e room room"
| rebound: "roomChange e room (rebindPlayer room player sock nm now rnd)"
| accepted:
    "phase room = in_game \<Longrightarrow>
     roomChange (SubmitWord sock rc pl w now rnd) room
       (acceptWord room player (sanitizeWord w) now rnd)"
| dropped: "roomChange e room (dropPlayer room player now rnd)"
| ticked: "roomChange e room (tickRoom now rnd room)"
| joined: "phase room = lobby \<Longrightarrow> roomChange e room (addPlayer room player now)"
| configured: "phase room = lobby \<Longrightarrow> roomChange e room (applySettings room d ts sl de now)"
| startFailed:
    "phase room = lobby \<Longrightarrow>
     roomChange (StartGame sock rc pl now rnd) room ((prepareMatch room)\<lparr>phase := lobby\<rparr>)"
| started:
    "phase room = lobby \<Longrightarrow>
     roomChange (StartGame sock rc pl now rnd) room
       (beginMatch (prepareMatch room) firstActive now rnd)"
| reset:
    "phase room = results \<Longrightarrow>
     roomChange (PlayAgain sock rc pl now) room (resetMatch room now)"

subsection \<open>Vocabulary for the used-word log\<close>

definition earlierCheckError ::
  "GameService \<Rightarrow> RoomState \<Rightarrow> string \<Rightarrow> string \<Rightarrow> string \<Rightarrow> string \<Rightarrow> int \<Rightarrow> string option" where
  \<comment> \<open>Written from the spec (section 4.5, checks 1 and 3 to 8, for a call whose room exists
      and is in a match): the message of the first check before the used-word look-up that
      the call fails, \<open>None\<close> when it passes them all\<close>
  "earlierCheckError s room sock rc pl w now =
     (if now - (case lastSubmitAtBySocket s sock of Some t \<Rightarrow> t | None \<Rightarrow> 0)
           < SUBMIT_RATE_LIMIT_MS
        then Some ''Submitting too quickly. Slow down slightly.''
      else if \<not> socketOwnsPlayer s sock (sanitizeRoomCode rc) pl
        then Some ''Action not allowed for this socket.''
      else if \<not> (case getPlayer room pl of
                    Some player \<Rightarrow> connected player \<and> \<not> eliminated player
                  | None \<Rightarrow> False)
        then Some ''You are not an active player.''
      else if activePlayerId room \<noteq> Some pl
        then Some ''It is not your turn.''
      else if \<not> (sanitizeWord w \<noteq> [] \<and> list_all isLower (sanitizeWord w))
        then Some ''Word must contain letters A-Z only.''
      else if length (sanitizeWord w) < 3
        then Some ''Word must be at least 3 letters.''
      else if \<not> (case currentChunk room of
                    Some chunk \<Rightarrow> toLowerCase chunk \<noteq> [] \<and>
                                  includes_str (sanitizeWord w) (toLowerCase chunk)
                  | None \<Rightarrow> False)
        then Some (''Word must include chunk '' @ [CHR 0x22] @
                   (case currentChunk room of Some c \<Rightarrow> c | None \<Rightarrow> ''null'') @
                   [CHR 0x22] @ ''.'')
      else None)"

definition passesEarlierChecks ::
  "GameService \<Rightarrow> RoomState \<Rightarrow> string \<Rightarrow> string \<Rightarrow> string \<Rightarrow> string \<Rightarrow> int \<Rightarrow> bool" where
  \<comment> \<open>the call passes every check of \<open>submitWord\<close> that comes before the look-up in the
      used-word set\<close>
  "passesEarlierChecks s room sock rc pl w now =
     (\<not> now - (case lastSubmitAtBySocket s sock of Some t \<Rightarrow> t | None \<Rightarrow> 0)
          < SUBMIT_RATE_LIMIT_MS \<and>
      socketOwnsPlayer s sock (sanitizeRoomCode rc) pl \<and>
      (case getPlayer room pl of
         Some player \<Rightarrow> connected player \<and> \<not> eliminated player \<and>
                        activePlayerId room = Some (idP player)
       | None \<Rightarrow> False) \<and>
      sanitizeWord w \<noteq> [] \<and> list_all isLower (sanitizeWord w) \<and>
      3 \<le> length (sanitizeWord w) \<and>
      (case currentChunk room of
         Some chunk \<Rightarrow> toLowerCase chunk \<noteq> [] \<and>
                       includes_str (sanitizeWord w) (toLowerCase chunk)
       | None \<Rightarrow> False))"

fun staysInMatch :: "string \<Rightarrow> event list \<Rightarrow> GameService \<Rightarrow> bool" where
  \<comment> \<open>the room with code \<open>c\<close> exists and is in a match before, between and after the events:
      they all belong to one match of that room\<close>
  "staysInMatch c [] s = (case rooms s c of Some room \<Rightarrow> phase room = in_game | None \<Rightarrow> False)"
| "staysInMatch c (e # es) s =
     ((case rooms s c of Some room \<Rightarrow> phase room = in_game | None \<Rightarrow> False) \<and>
      staysInMatch c es (step e s))"

subsection \<open>Sample sessions\<close>

text \<open>
  Concrete sessions against a server without a word list, used to exercise the theorems
  below. Ava creates the room, Bo and Cy join it; the random numbers are all 0, so the first
  chunk of a match is "AR" and the second is "ER".
\<close>

definition lobbySession :: "event list" where
  "lobbySession =
     [CreateRoom ''s1'' ''Ava'' [''ROOMAA''] ''a'' 1000,
      JoinRoom ''s2'' ''roomaa'' ''Bo'' ''b'' 2000,
      JoinRoom ''s3'' ''ROOMAA'' ''Cy'' ''c'' 2500]"

definition gameSession :: "event list" where
  "gameSession = lobbySession @ [StartGame ''s1'' ''ROOMAA'' ''p_a'' 3000 0]"

definition lobbyServer :: GameService where
  "lobbyServer = run lobbySession (newGameService disabledDictionary)"

definition gameServer :: GameService where
  "gameServer = run gameSession (newGameService disabledDictionary)"

definition droppedServer :: GameService where
  \<comment> \<open>Bo's connection is lost while Ava holds the bomb\<close>
  "droppedServer = step (Disconnect ''s2'' 3500 0) gameServer"

definition rejoinedServer :: GameService where
  \<comment> \<open>Bo returns on a new connection before the old one is reported lost\<close>
  "rejoinedServer = step (Reconnect ''s9'' ''ROOMAA'' ''p_b'' None 3200 0) gameServer"

definition playedServer :: GameService where
  \<comment> \<open>Ava plays "art"; the bomb passes to Bo with the chunk "ER"\<close>
  "playedServer = step (SubmitWord ''s1'' ''ROOMAA'' ''p_a'' ''art'' 4000 0) gameServer"

definition finalServer :: GameService where
  \<comment> \<open>after Bo, Cy's connection is lost as well, which leaves Ava alone\<close>
  "finalServer = step (Disconnect ''s3'' 3600 0) droppedServer"

definition careerServer :: GameService where
  \<comment> \<open>as \<open>playedServer\<close>, with a word that also contains the next chunk\<close>
  "careerServer = step (SubmitWord ''s1'' ''ROOMAA'' ''p_a'' ''Career'' 4000 0) gameServer"

definition roomOf :: "GameService \<Rightarrow> RoomState" where
  "roomOf s = the (rooms s ''ROOMAA'')"

section \<open>Chunk selection\<close>

lemmas session_simps =
  roomOf_def careerServer_def finalServer_def droppedServer_def rejoinedServer_def playedServer_def gameServer_def lobbyServer_def gameSession_def lobbySession_def

lemmas eval_simps =
  createRoom_def joinRoom_def reconnectPlayer_def updateSettings_def startGame_def
  submitWord_def playAgain_def handleDisconnect_def tick_def tickRoom_def handleTimerExpiry_def
  cleanupRooms_def Let_def newPlayer_def newRoom_def addPlayer_def rebind_def resumeTurn_def
  rebindPlayer_def applySettings_def prepareMatch_def beginMatch_def acceptWord_def
  resetMatch_def dropPlayer_def
  sanitizePlayerName_def sanitizeRoomCode_def sanitizeWord_def trim_def toLowerCase_def
  toUpperCase_def toLowerChar_def toUpperStr_def isUpper_def isLower_def isDigit_def isSpace_def
  createRoomCode_def createPlayerId_def newGameService_def bindSocketSession_def
  socketOwnsPlayer_def successFor_def success_def failure_def serializeRoom_def
  connectedCount_def getEligiblePlayers_def isEligible_def chooseChunk_def CHUNKS_def nth_js_def
  resetPlayer_def getPlayer_def advanceTurn_def finishGame_def first_def markDisconnected_def
  loseLife_def ensureHostIsConnected_def disabledDictionary_def
  DEFAULT_STARTING_LIVES_def DEFAULT_TURN_SECONDS_def MAX_PLAYERS_PER_ROOM_def
  MIN_PLAYERS_TO_START_def SUBMIT_RATE_LIMIT_MS_def EMPTY_ROOM_TTL_MS_def
  MIN_TURN_SECONDS_def MAX_TURN_SECONDS_def MIN_STARTING_LIVES_def MAX_STARTING_LIVES_def


lemma chunk_pool_nonempty: "filter (\<lambda>chunk. Some chunk \<noteq> prev) CHUNKS \<noteq> []"
proof (cases "prev = Some ''AR''")
  case True
  then have "''ER'' \<in> set (filter (\<lambda>chunk. Some chunk \<noteq> prev) CHUNKS)"
    by (simp add: CHUNKS_def)
  then show ?thesis by (metis empty_iff list.set(1))
next
  case False
  then have "''AR'' \<in> set (filter (\<lambda>chunk. Some chunk \<noteq> prev) CHUNKS)"
    by (simp add: CHUNKS_def)
  then show ?thesis by (metis empty_iff list.set(1))
qed

lemma nth_js_random:
  assumes "xs \<noteq> []" "0 \<le> rnd" "rnd < 1"
  shows "\<exists>x. nth_js xs \<lfloor>rnd * real (length xs)\<rfloor> = Some x \<and> x \<in> set xs"
proof -
  let ?n = "length xs"
  have pos: "0 < real ?n" using assms(1) by simp
  have "0 \<le> rnd * real ?n" using assms(2) by simp
  then have lo: "0 \<le> \<lfloor>rnd * real ?n\<rfloor>" by simp
  have "rnd * real ?n < real ?n" using assms(3) pos by simp
  then have hi: "\<lfloor>rnd * real ?n\<rfloor> < int ?n" by (simp add: floor_less_iff)
  from lo hi have "nat \<lfloor>rnd * real ?n\<rfloor> < ?n" by linarith
  then have "xs ! nat \<lfloor>rnd * real ?n\<rfloor> \<in> set xs" by simp
  with lo hi show ?thesis by (simp add: nth_js_def)
qed

lemma chooseChunk_fresh:
  assumes "0 \<le> rnd" "rnd < 1"
  shows "\<exists>c. chooseChunk prev rnd = Some c \<and> c \<in> set CHUNKS \<and> Some c \<noteq> prev"
proof -
  let ?pool = "filter (\<lambda>chunk. Some chunk \<noteq> prev) CHUNKS"
  have ne: "?pool \<noteq> []" by (rule chunk_pool_nonempty)
  then have "chooseChunk prev rnd = nth_js ?pool \<lfloor>rnd * real (length ?pool)\<rfloor>"
    by (simp add: chooseChunk_def Let_def)
  moreover obtain x where
    "nth_js ?pool \<lfloor>rnd * real (length ?pool)\<rfloor> = Some x" "x \<in> set ?pool"
    using nth_js_random [OF ne assms] by blast
  ultimately show ?thesis by auto
qed

text \<open>
  C6. The catalog has more than one entry, and for every previous chunk (or none) and every
  value \<open>rnd\<close> of \<open>Math.random()\<close>, which lies in [0, 1), \<open>chooseChunk\<close> returns a chunk of
  the catalog that differs from the previous one. Hence a turn advance that does not end the
  match, and a reconnect that restarts the turn, offer a chunk different from the one they
  replace.
\<close>

theorem chooseChunk_never_repeats:
  assumes "0 \<le> rnd" "rnd < 1"
  shows "1 < length CHUNKS \<and>
         (\<exists>c. chooseChunk prev rnd = Some c \<and> c \<in> set CHUNKS \<and> Some c \<noteq> prev) \<and>
         (phase (advanceTurn room fromPlayerId now rnd) \<noteq> results \<longrightarrow>
            currentChunk (advanceTurn room fromPlayerId now rnd) \<noteq> None \<and>
            currentChunk (advanceTurn room fromPlayerId now rnd) \<noteq> currentChunk room) \<and>
         (activePlayerId (resumeTurn room now rnd) \<noteq> activePlayerId room \<longrightarrow>
            currentChunk (resumeTurn room now rnd) \<noteq> None \<and>
            currentChunk (resumeTurn room now rnd) \<noteq> currentChunk room)"
proof -
  have l: "1 < length CHUNKS" by (simp add: CHUNKS_def)
  have c: "\<exists>c. chooseChunk prev rnd = Some c \<and> c \<in> set CHUNKS \<and> Some c \<noteq> prev"
    using assms by (rule chooseChunk_fresh)
  have a: "phase (advanceTurn room fromPlayerId now rnd) \<noteq> results \<longrightarrow>
            currentChunk (advanceTurn room fromPlayerId now rnd) \<noteq> None \<and>
            currentChunk (advanceTurn room fromPlayerId now rnd) \<noteq> currentChunk room"
    using chooseChunk_fresh [OF assms, of "currentChunk room"]
    by (auto simp: advanceTurn_def finishGame_def Let_def split: option.splits)
  have r: "activePlayerId (resumeTurn room now rnd) \<noteq> activePlayerId room \<longrightarrow>
            currentChunk (resumeTurn room now rnd) \<noteq> None \<and>
            currentChunk (resumeTurn room now rnd) \<noteq> currentChunk room"
    using chooseChunk_fresh [OF assms, of "currentChunk room"]
    by (auto simp: resumeTurn_def split: option.splits)
  from l c a r show ?thesis by blast
qed

theorem chooseChunk_never_repeats_witness:
  "chooseChunk (Some ''AR'') 0 = Some ''ER'' \<and> ''ER'' \<in> set CHUNKS"
  using chooseChunk_never_repeats [of 0 "Some ''AR''"]
  by (simp add: chooseChunk_def CHUNKS_def nth_js_def)

section \<open>Turn order\<close>

lemma findIndex_Some:
  "findIndex P xs = Some i \<Longrightarrow> i < length xs \<and> P (xs ! i) \<and> (\<forall>k<i. \<not> P (xs ! k))"
proof (induction xs arbitrary: i)
  case Nil
  then show ?case by simp
next
  case (Cons x xs)
  show ?case
  proof (cases "P x")
    case True
    with Cons.prems show ?thesis by simp
  next
    case False
    with Cons.prems obtain j where j: "findIndex P xs = Some j" "i = Suc j" by auto
    from Cons.IH [OF j(1)] False j(2) show ?thesis
      by (auto simp: nth_Cons split: nat.splits)
  qed
qed


lemma find_first_filter: "find P xs = first (filter P xs)"
  by (induction xs) (auto simp: first_def)

lemma find_drop:
  "find P (drop j xs) =
     (if j < length xs then (if P (xs ! j) then Some (xs ! j) else find P (drop (Suc j) xs))
      else None)"
proof (cases "j < length xs")
  case True
  then have "drop j xs = xs ! j # drop (Suc j) xs" by (simp add: Cons_nth_drop_Suc)
  then show ?thesis using True by simp
next
  case False
  then show ?thesis by simp
qed

lemma rotated_nth:
  assumes "i < length ps" "j < length ps"
  shows "(drop (Suc i) ps @ take (Suc i) ps) ! j = ps ! ((i + Suc j) mod length ps)"
proof (cases "j < length ps - Suc i")
  case True
  then have "(i + Suc j) mod length ps = Suc i + j" by simp
  with True show ?thesis by (simp add: nth_append)
next
  case False
  then have ge: "length ps \<le> i + Suc j" by simp
  have "i + Suc j < length ps + length ps" using assms by simp
  with ge have m: "(i + Suc j) mod length ps = i + Suc j - length ps"
    by (metis add_diff_inverse_nat mod_add_self1 mod_less not_less less_diff_conv2 add.commute nat_add_left_cancel_less)
  have "j - (length ps - Suc i) = i + Suc j - length ps" using False assms by simp
  with False m assms show ?thesis by (simp add: nth_append min_def)
qed

lemma rotated_set: "set (drop (Suc i) ps @ take (Suc i) ps) = set ps"
  by (metis append_take_drop_id set_append sup_commute)

lemma scanFrom_find:
  "1 \<le> k \<Longrightarrow> i < length ps \<Longrightarrow>
   scanFrom ps i k = find isEligible (drop (k - 1) (drop (Suc i) ps @ take (Suc i) ps))"
proof (induction ps i k rule: scanFrom.induct)
  case (1 ps startIndex offset)
  let ?rot = "drop (Suc startIndex) ps @ take (Suc startIndex) ps"
  have si: "startIndex < length ps" using "1.prems" by simp
  have len: "length ?rot = length ps" using si by simp
  show ?case
  proof (cases "offset \<le> length ps")
    case True
    then have j: "offset - 1 < length ps" using "1.prems" by simp
    have "?rot ! (offset - 1) = ps ! ((startIndex + Suc (offset - 1)) mod length ps)"
      using rotated_nth [OF si j] .
    then have nth: "?rot ! (offset - 1) = ps ! ((startIndex + offset) mod length ps)"
      using "1.prems" by simp
    have fd: "find isEligible (drop (offset - 1) ?rot) =
                (if isEligible (?rot ! (offset - 1)) then Some (?rot ! (offset - 1))
                 else find isEligible (drop (Suc (offset - 1)) ?rot))"
      using j len by (subst find_drop) simp
    show ?thesis
    proof (cases "isEligible (ps ! ((startIndex + offset) mod length ps))")
      case e: True
      then have "scanFrom ps startIndex offset = Some (ps ! ((startIndex + offset) mod length ps))"
        using True by (subst scanFrom.simps) (simp add: isEligible_def Let_def)
      with fd nth e show ?thesis by simp
    next
      case e: False
      then have ne: "\<not> (connected (ps ! ((startIndex + offset) mod length ps)) \<and>
                 \<not> eliminated (ps ! ((startIndex + offset) mod length ps)))"
        by (simp add: isEligible_def)
      then have "scanFrom ps startIndex offset = scanFrom ps startIndex (offset + 1)"
        using True by (subst scanFrom.simps) (auto simp: Let_def)
      moreover have "scanFrom ps startIndex (offset + 1) =
          find isEligible (drop (offset + 1 - 1) ?rot)"
        using "1.IH" [OF True refl refl ne] si by simp
      ultimately show ?thesis using fd nth e "1.prems" by simp
    qed
  next
    case False
    then have "scanFrom ps startIndex offset = None"
      by (subst scanFrom.simps) simp
    moreover have "drop (offset - 1) ?rot = []" using False len by simp
    ultimately show ?thesis by simp
  qed
qed

lemma getNextEligiblePlayer_find:
  "getNextEligiblePlayer room fromPlayerId =
     (case fromPlayerId of
        None \<Rightarrow> find isEligible (players room)
      | Some f \<Rightarrow>
         (case findIndex (\<lambda>player. idP player = f) (players room) of
            None \<Rightarrow> find isEligible (players room)
          | Some i \<Rightarrow>
             find isEligible (drop (Suc i) (players room) @ take (Suc i) (players room))))"
proof (cases "getEligiblePlayers room")
  case Nil
  have "find isEligible xs = None" if "set xs = set (players room)" for xs
    using that Nil by (auto simp: find_None_iff getEligiblePlayers_def filter_empty_conv)
  from this [OF refl] this [OF rotated_set] Nil show ?thesis
    by (simp add: getNextEligiblePlayer_def split: option.splits)
next
  case (Cons e0 es)
  then have f: "find isEligible (players room) = Some e0"
    by (simp add: find_first_filter first_def getEligiblePlayers_def)
  show ?thesis
  proof (cases fromPlayerId)
    case None
    with Cons f show ?thesis by (simp add: getNextEligiblePlayer_def)
  next
    case (Some f')
    show ?thesis
    proof (cases "findIndex (\<lambda>player. idP player = f') (players room)")
      case None
      with Cons f Some show ?thesis by (simp add: getNextEligiblePlayer_def)
    next
      case (Some i)
      then have "i < length (players room)" by (auto dest: findIndex_Some)
      from scanFrom_find [OF _ this, of 1] Cons Some \<open>fromPlayerId = Some f'\<close>
      show ?thesis by (simp add: getNextEligiblePlayer_def)
    qed
  qed
qed

text \<open>
  C5. \<open>getNextEligiblePlayer\<close> returns the first eligible player (connected and not
  eliminated) of the join-order array read from the position after the starting player and
  wrapped around to the starting player itself; without a starting player, or when the
  starting id is not in the room, it returns the first eligible player in join order; it
  returns nothing exactly when the room has no eligible player.
\<close>

theorem getNextEligiblePlayer_scan:
  "getNextEligiblePlayer room fromPlayerId =
     (case fromPlayerId of
        None \<Rightarrow> find isEligible (players room)
      | Some f \<Rightarrow>
         (case findIndex (\<lambda>player. idP player = f) (players room) of
            None \<Rightarrow> find isEligible (players room)
          | Some i \<Rightarrow>
             find isEligible (drop (Suc i) (players room) @ take (Suc i) (players room))))
   \<and> (getNextEligiblePlayer room fromPlayerId = None \<longleftrightarrow> getEligiblePlayers room = [])"
proof -
  have noneq: "find isEligible xs = None \<longleftrightarrow> getEligiblePlayers room = []"
    if "set xs = set (players room)" for xs
    using that by (auto simp: find_None_iff getEligiblePlayers_def filter_empty_conv)
  have "(getNextEligiblePlayer room fromPlayerId = None) = (getEligiblePlayers room = [])"
    unfolding getNextEligiblePlayer_find using noneq [OF refl] noneq [OF rotated_set]
    by (simp split: option.splits)
  with getNextEligiblePlayer_find show ?thesis by blast
qed

lemma droppedServer_players:
  "players (roomOf droppedServer) =
     [\<lparr>idP = ''p_a'', name = ''Ava'', joinedAt = 1000, socketId = Some ''s1'',
        connected = True, score = 0, lives = 3, eliminated = False\<rparr>,
      \<lparr>idP = ''p_b'', name = ''Bo'', joinedAt = 2000, socketId = None,
        connected = False, score = 0, lives = 3, eliminated = False\<rparr>,
      \<lparr>idP = ''p_c'', name = ''Cy'', joinedAt = 2500, socketId = Some ''s3'',
        connected = True, score = 0, lives = 3, eliminated = False\<rparr>]"
  by (simp add: session_simps eval_simps getNextEligiblePlayer_def scanFrom.simps)

theorem getNextEligiblePlayer_scan_witness:
  "map_option idP (getNextEligiblePlayer (roomOf droppedServer) (Some ''p_a'')) = Some ''p_c'' \<and>
   map_option idP (getNextEligiblePlayer (roomOf droppedServer) (Some ''p_c'')) = Some ''p_a''"
  using getNextEligiblePlayer_scan [of "roomOf droppedServer" "Some ''p_a''"]
    getNextEligiblePlayer_scan [of "roomOf droppedServer" "Some ''p_c''"]
  by (simp add: droppedServer_players isEligible_def)

section \<open>Disconnects\<close>

text \<open>
  C10. A disconnect of a socket whose session names a player that is by now bound to another
  socket changes nothing but the two per-socket tables: the session binding and the
  rate-limit entry of that socket are removed, and every room, with every field of every
  player, stays as it was.
\<close>

theorem stale_disconnect_frame:
  assumes "socketSessions s sock = Some sess"
      and "rooms s (roomCode sess) = Some room"
      and "getPlayer room (playerId sess) = Some player"
      and "socketId player \<noteq> Some sock"
  shows "handleDisconnect sock now rnd s =
           s\<lparr>socketSessions := (socketSessions s)(sock := None),
             lastSubmitAtBySocket := (lastSubmitAtBySocket s)(sock := None)\<rparr> \<and>
         rooms (handleDisconnect sock now rnd s) = rooms s"
  using assms by (simp add: handleDisconnect_def Let_def)

lemma rejoinedServer_facts:
  "socketSessions rejoinedServer ''s2'' = Some \<lparr>roomCode = ''ROOMAA'', playerId = ''p_b''\<rparr>"
  "rooms rejoinedServer ''ROOMAA'' = Some (roomOf rejoinedServer)"
  "getPlayer (roomOf rejoinedServer) ''p_b'' =
     Some \<lparr>idP = ''p_b'', name = ''Bo'', joinedAt = 2000, socketId = Some ''s9'',
           connected = True, score = 0, lives = 3, eliminated = False\<rparr>"
  by (simp_all add: rejoinedServer_def session_simps eval_simps getNextEligiblePlayer_def
        scanFrom.simps)

theorem stale_disconnect_frame_witness:
  "rooms (handleDisconnect ''s2'' 3500 0 rejoinedServer) = rooms rejoinedServer \<and>
   socketSessions (handleDisconnect ''s2'' 3500 0 rejoinedServer) ''s2'' = None \<and>
   socketSessions (handleDisconnect ''s2'' 3500 0 rejoinedServer) ''s9'' =
     socketSessions rejoinedServer ''s9''"
  using stale_disconnect_frame [of rejoinedServer "''s2''"
      "\<lparr>roomCode = ''ROOMAA'', playerId = ''p_b''\<rparr>" "roomOf rejoinedServer" _ 3500 0]
    rejoinedServer_facts
  by simp

lemma getPlayer_idP: "getPlayer room i = Some p \<Longrightarrow> idP p = i \<and> p \<in> set (players room)"
  by (auto simp: getPlayer_def find_Some_iff)

lemma find_updatePlayer:
  "find (\<lambda>q. idP q = i) ps = Some p \<Longrightarrow> idP (f p) = i \<Longrightarrow>
   find (\<lambda>q. idP q = i) (updatePlayer i f ps) = Some (f p)"
  by (induction ps) (auto split: if_splits)

lemma players_advanceTurn [simp]: "players (advanceTurn room f now rnd) = players room"
  by (simp add: advanceTurn_def finishGame_def Let_def split: option.splits)

lemma hostId_advanceTurn [simp]: "hostId (advanceTurn room f now rnd) = hostId room"
  by (simp add: advanceTurn_def finishGame_def Let_def split: option.splits)

lemma players_finishGame [simp]: "players (finishGame room w now) = players room"
  by (simp add: finishGame_def)

lemma hostId_finishGame [simp]: "hostId (finishGame room w now) = hostId room"
  by (simp add: finishGame_def)

lemma players_ensureHost [simp]: "players (ensureHostIsConnected room) = players room"
  by (simp add: ensureHostIsConnected_def split: option.splits)

text \<open>
  C8. When the socket of the player who holds the host role disconnects, that player is
  marked disconnected and the host role goes to the connected player at the earliest position
  of the player list; when no player is connected any more, the host id stays as it was.
\<close>

theorem host_reassigned_on_disconnect:
  assumes "socketSessions s sock = Some sess"
      and "rooms s (roomCode sess) = Some room"
      and "getPlayer room (playerId sess) = Some player"
      and "socketId player = Some sock"
      and "idP player = hostId room"
  shows "\<exists>room'. rooms (handleDisconnect sock now rnd s) (roomCode sess) = Some room' \<and>
           players room' = updatePlayer (idP player) markDisconnected (players room) \<and>
           (\<forall>j < length (players room').
               connected (players room' ! j) \<and> (\<forall>k < j. \<not> connected (players room' ! k))
                 \<longrightarrow> hostId room' = idP (players room' ! j)) \<and>
           ((\<forall>p \<in> set (players room'). \<not> connected p) \<longrightarrow> hostId room' = hostId room)"
proof -
  let ?ps = "updatePlayer (idP player) markDisconnected (players room)"
  let ?room1 = "room\<lparr>players := ?ps\<rparr>"
  let ?room2 = "ensureHostIsConnected ?room1"
  have idp: "idP player = playerId sess" using assms(3) by (simp add: getPlayer_idP)
  have "find (\<lambda>q. idP q = idP player) (players room) = Some player"
    using assms(3) idp by (simp add: getPlayer_def)
  then have host: "getPlayer ?room1 (hostId ?room1) = Some (markDisconnected player)"
    using assms(5) find_updatePlayer [of "idP player" "players room" player markDisconnected]
    by (simp add: getPlayer_def markDisconnected_def)
  have h2: "hostId ?room2 =
              (case find connected ?ps of Some nextHost \<Rightarrow> idP nextHost | None \<Rightarrow> hostId room)"
    using host by (simp add: ensureHostIsConnected_def markDisconnected_def split: option.splits)
  obtain room' where r': "rooms (handleDisconnect sock now rnd s) (roomCode sess) = Some room'"
      and p': "players room' = ?ps" and h': "hostId room' = hostId ?room2"
    using assms by (simp add: handleDisconnect_def dropPlayer_def Let_def)
  have earliest: "hostId room' = idP (players room' ! j)"
    if "j < length (players room')" "connected (players room' ! j)"
       "\<forall>k < j. \<not> connected (players room' ! k)" for j
  proof -
    have "find connected ?ps = Some (?ps ! j)"
      using that p' by (auto simp: find_Some_iff)
    with h2 h' p' show ?thesis by simp
  qed
  have none: "hostId room' = hostId room" if "\<forall>p \<in> set (players room'). \<not> connected p"
  proof -
    have "find connected ?ps = None" using that p' by (simp add: find_None_iff)
    with h2 h' show ?thesis by simp
  qed
  from r' p' earliest none show ?thesis by blast
qed

lemma gameServer_facts:
  "socketSessions gameServer ''s1'' = Some \<lparr>roomCode = ''ROOMAA'', playerId = ''p_a''\<rparr>"
  "rooms gameServer ''ROOMAA'' = Some (roomOf gameServer)"
  "hostId (roomOf gameServer) = ''p_a''"
  "players (roomOf gameServer) =
     [\<lparr>idP = ''p_a'', name = ''Ava'', joinedAt = 1000, socketId = Some ''s1'',
        connected = True, score = 0, lives = 3, eliminated = False\<rparr>,
      \<lparr>idP = ''p_b'', name = ''Bo'', joinedAt = 2000, socketId = Some ''s2'',
        connected = True, score = 0, lives = 3, eliminated = False\<rparr>,
      \<lparr>idP = ''p_c'', name = ''Cy'', joinedAt = 2500, socketId = Some ''s3'',
        connected = True, score = 0, lives = 3, eliminated = False\<rparr>]"
  by (simp_all add: session_simps eval_simps getNextEligiblePlayer_def scanFrom.simps)

theorem host_reassigned_on_disconnect_witness:
  "map_option hostId (rooms (handleDisconnect ''s1'' 3500 0 gameServer) ''ROOMAA'') = Some ''p_b''"
proof -
  let ?ava = "\<lparr>idP = ''p_a'', name = ''Ava'', joinedAt = 1000, socketId = Some ''s1'',
        connected = True, score = 0, lives = 3, eliminated = False\<rparr>"
  have "getPlayer (roomOf gameServer) ''p_a'' = Some ?ava"
    by (simp add: getPlayer_def gameServer_facts)
  from host_reassigned_on_disconnect [of gameServer "''s1''"
      "\<lparr>roomCode = ''ROOMAA'', playerId = ''p_a''\<rparr>" "roomOf gameServer" ?ava 3500 0]
    this gameServer_facts
  obtain room' where r: "rooms (handleDisconnect ''s1'' 3500 0 gameServer) ''ROOMAA'' = Some room'"
    and p: "players room' = updatePlayer ''p_a'' markDisconnected (players (roomOf gameServer))"
    and h: "\<forall>j < length (players room').
               connected (players room' ! j) \<and> (\<forall>k < j. \<not> connected (players room' ! k))
                 \<longrightarrow> hostId room' = idP (players room' ! j)"
    by auto
  from h [rule_format, of 1] p have "hostId room' = ''p_b''"
    by (simp add: gameServer_facts markDisconnected_def)
  with r show ?thesis by simp
qed

section \<open>Settings\<close>

lemma createDictionary_enabled:
  "enabled (createDictionary env localFile packageFile) =
     (env \<noteq> Some ''false'' \<and>
      (\<exists>l p. localFile = Some l \<and> packageFile = Some p \<and>
             set (parseWords p) \<union> set (parseWords l) \<noteq> {}))"
  by (auto simp: createDictionary_def disabledDictionary_def Let_def split: option.splits)

text \<open>
  C9. An \<open>updateSettings\<close> call of the host in the lobby that asks for dictionary validation
  succeeds, and the flag stored in the room is the \<open>enabled\<close> flag of the server's
  dictionary: for a dictionary built by \<open>createDictionary\<close> it is true only when the
  environment does not say "false", both word lists can be read and they hold at least one
  word; otherwise the stored flag is false.
\<close>

theorem updateSettings_dictionary_flag:
  assumes "rooms s (sanitizeRoomCode rcIn) = Some room"
      and "socketOwnsPlayer s sock (sanitizeRoomCode rcIn) pl"
      and "phase room = lobby"
      and "hostId room = pl"
  shows "ok (fst (updateSettings sock rcIn pl ts sl (Some True) now s)) \<and>
         (\<exists>room'. rooms (snd (updateSettings sock rcIn pl ts sl (Some True) now s))
                     (sanitizeRoomCode rcIn) = Some room' \<and>
                   dictionaryEnabled (config room') = enabled (dictionary s)) \<and>
         (dictionary s = createDictionary env localFile packageFile \<longrightarrow>
            enabled (dictionary s) =
              (env \<noteq> Some ''false'' \<and>
               (\<exists>l p. localFile = Some l \<and> packageFile = Some p \<and>
                      set (parseWords p) \<union> set (parseWords l) \<noteq> {})))"
proof -
  have "ok (fst (updateSettings sock rcIn pl ts sl (Some True) now s))"
    using assms by (simp add: updateSettings_def applySettings_def Let_def success_def)
  moreover have "\<exists>room'. rooms (snd (updateSettings sock rcIn pl ts sl (Some True) now s))
                     (sanitizeRoomCode rcIn) = Some room' \<and>
                   dictionaryEnabled (config room') = enabled (dictionary s)"
    using assms by (simp add: updateSettings_def applySettings_def Let_def split: option.splits)
  ultimately show ?thesis using createDictionary_enabled by simp
qed

lemma lobbyServer_facts:
  "rooms lobbyServer ''ROOMAA'' = Some (roomOf lobbyServer)"
  "socketOwnsPlayer lobbyServer ''s1'' ''ROOMAA'' ''p_a''"
  "phase (roomOf lobbyServer) = lobby"
  "hostId (roomOf lobbyServer) = ''p_a''"
  "dictionary lobbyServer = createDictionary None None (Some ''apple'')"
  "sanitizeRoomCode ''roomaa'' = ''ROOMAA''"
  by (simp_all add: session_simps eval_simps createDictionary_def)

theorem updateSettings_dictionary_flag_witness:
  "ok (fst (updateSettings ''s1'' ''roomaa'' ''p_a'' None None (Some True) 2600 lobbyServer)) \<and>
   map_option (\<lambda>room. dictionaryEnabled (config room))
     (rooms (snd (updateSettings ''s1'' ''roomaa'' ''p_a'' None None (Some True) 2600 lobbyServer))
        ''ROOMAA'') = Some False"
  using updateSettings_dictionary_flag [of lobbyServer "''roomaa''" "roomOf lobbyServer" "''s1''"
      "''p_a''" None None 2600 None None "Some ''apple''"]
    lobbyServer_facts
  by auto

section \<open>Submission rate limit\<close>

lemma lastSubmit_bind [simp]:
  "lastSubmitAtBySocket (bindSocketSession sock rc pl s) = lastSubmitAtBySocket s"
  by (simp add: bindSocketSession_def)

lemma lastSubmit_step_other:
  assumes "\<forall>sock' rc pl w now rnd. e \<noteq> SubmitWord sock' rc pl w now rnd"
      and "\<forall>sock' now rnd. e \<noteq> Disconnect sock' now rnd"
  shows "lastSubmitAtBySocket (step e s) = lastSubmitAtBySocket s"
proof (cases e)
  case (CreateRoom sock nm attempts idSuffix now)
  then show ?thesis by (simp add: createRoom_def Let_def split: option.splits)
next
  case (JoinRoom sock rc nm idSuffix now)
  then show ?thesis by (simp add: joinRoom_def Let_def split: option.splits)
next
  case (Reconnect sock rc pl nm now rnd)
  then show ?thesis by (simp add: reconnectPlayer_def Let_def split: option.splits)
next
  case (UpdateSettings sock rc pl ts sl de now)
  then show ?thesis by (simp add: updateSettings_def Let_def split: option.splits)
next
  case (StartGame sock rc pl now rnd)
  then show ?thesis by (simp add: startGame_def Let_def split: option.splits)
next
  case (SubmitWord sock rc pl w now rnd)
  with assms show ?thesis by simp
next
  case (PlayAgain sock rc pl now)
  then show ?thesis by (simp add: playAgain_def Let_def split: option.splits)
next
  case (Disconnect sock now rnd)
  with assms show ?thesis by simp
next
  case (Tick now rnd)
  then show ?thesis by (simp add: tick_def)
next
  case (CleanupRooms now)
  then show ?thesis by (simp add: cleanupRooms_def)
qed

lemma lastSubmit_submitWord:
  "lastSubmitAtBySocket (snd (submitWord sock rc pl w now rnd s)) =
     (if now - (case lastSubmitAtBySocket s sock of Some t \<Rightarrow> t | None \<Rightarrow> 0) < SUBMIT_RATE_LIMIT_MS
      then lastSubmitAtBySocket s
      else (lastSubmitAtBySocket s)(sock \<mapsto> now))"
  by (simp add: submitWord_def Let_def split: option.splits)

lemma lastSubmit_handleDisconnect:
  "lastSubmitAtBySocket (handleDisconnect sock now rnd s) = (lastSubmitAtBySocket s)(sock := None)"
  by (simp add: handleDisconnect_def Let_def split: option.splits)

lemma lastSubmit_step_lower:
  assumes "lastSubmitAtBySocket s sock = Some u" "t \<le> u"
      and "\<forall>now rnd. e \<noteq> Disconnect sock now rnd"
  shows "\<exists>u'. lastSubmitAtBySocket (step e s) sock = Some u' \<and> t \<le> u'"
proof -
  consider
    (submit) sock' rc pl w now rnd where "e = SubmitWord sock' rc pl w now rnd"
  | (disconnect) sock' now rnd where "e = Disconnect sock' now rnd"
  | (other) "\<forall>sock' rc pl w now rnd. e \<noteq> SubmitWord sock' rc pl w now rnd"
            "\<forall>sock' now rnd. e \<noteq> Disconnect sock' now rnd"
    by (cases e) auto
  then show ?thesis
  proof cases
    case submit
    with assms show ?thesis
      by (auto simp: lastSubmit_submitWord SUBMIT_RATE_LIMIT_MS_def split: option.splits)
  next
    case disconnect
    with assms have "sock' \<noteq> sock" by auto
    with disconnect assms show ?thesis by (simp add: lastSubmit_handleDisconnect)
  next
    case other
    then have "lastSubmitAtBySocket (step e s) = lastSubmitAtBySocket s"
      by (rule lastSubmit_step_other)
    with assms show ?thesis by simp
  qed
qed

lemma lastSubmit_run_lower:
  "lastSubmitAtBySocket s sock = Some u \<Longrightarrow> t \<le> u \<Longrightarrow>
   \<forall>e \<in> set es. \<forall>now rnd. e \<noteq> Disconnect sock now rnd \<Longrightarrow>
   \<exists>u'. lastSubmitAtBySocket (run es s) sock = Some u' \<and> t \<le> u'"
proof (induction es arbitrary: s u)
  case Nil
  then show ?case by simp
next
  case (Cons e es)
  from Cons.prems obtain u' where "lastSubmitAtBySocket (step e s) sock = Some u'" "t \<le> u'"
    using lastSubmit_step_lower [of s sock u t e] by auto
  with Cons.IH [of "step e s" u'] Cons.prems show ?case by simp
qed

text \<open>
  C7. Once a \<open>submitWord\<close> call of a connection has passed the rate-limit check at time
  \<open>t\<close>, every later \<open>submitWord\<close> call of that connection at a time less than 300 ms
  after \<open>t\<close> is answered with the rate-limit error and changes nothing, whatever the two
  words are, whatever the first call returned and whatever other events the server handled in
  between (the connection itself is still open, so none of them is its disconnect).
\<close>

theorem submit_rate_limit:
  assumes "\<not> (t - (case lastSubmitAtBySocket s sock of Some u \<Rightarrow> u | None \<Rightarrow> 0)
               < SUBMIT_RATE_LIMIT_MS)"
      and "\<forall>e \<in> set es. \<forall>now rnd. e \<noteq> Disconnect sock now rnd"
      and "t' - t < 300"
  shows "submitWord sock rc' pl' w' t' rnd' (run es (snd (submitWord sock rc pl w t rnd s))) =
           (failure ''Submitting too quickly. Slow down slightly.'',
            run es (snd (submitWord sock rc pl w t rnd s)))"
proof -
  let ?s1 = "snd (submitWord sock rc pl w t rnd s)"
  have "lastSubmitAtBySocket ?s1 sock = Some t"
    using assms(1) by (simp add: lastSubmit_submitWord)
  then obtain u' where "lastSubmitAtBySocket (run es ?s1) sock = Some u'" "t \<le> u'"
    using lastSubmit_run_lower [of ?s1 sock t t es] assms(2) by auto
  with assms(3) show ?thesis
    by (simp add: submitWord_def SUBMIT_RATE_LIMIT_MS_def)
qed

theorem submit_rate_limit_witness:
  "submitWord ''s1'' ''ROOMAA'' ''p_a'' ''art'' 4299 0
     (run [Tick 4100 (\<lambda>_. 0)] (snd (submitWord ''s1'' ''ROOMAA'' ''p_a'' ''x'' 4000 0 gameServer)))
   = (failure ''Submitting too quickly. Slow down slightly.'',
      run [Tick 4100 (\<lambda>_. 0)] (snd (submitWord ''s1'' ''ROOMAA'' ''p_a'' ''x'' 4000 0 gameServer)))"
proof -
  have "lastSubmitAtBySocket gameServer ''s1'' = None"
    by (simp add: session_simps eval_simps getNextEligiblePlayer_def scanFrom.simps)
  then show ?thesis
    using submit_rate_limit [of 4000 gameServer "''s1''" "[Tick 4100 (\<lambda>_. 0)]" 4299]
    by (simp add: SUBMIT_RATE_LIMIT_MS_def)
qed

section \<open>Invariants of reachable states\<close>

lemma find_Some_in: "find P xs = Some x \<Longrightarrow> P x \<and> x \<in> set xs"
  by (induction xs) (auto split: if_splits)

lemma getNext_Some:
  assumes "getNextEligiblePlayer room f = Some n"
  shows "n \<in> set (players room) \<and> isEligible n"
proof -
  have plain: ?thesis if "find isEligible (players room) = Some n"
    using that by (auto dest: find_Some_in)
  have rotated: ?thesis
    if "find isEligible (drop (Suc i) (players room) @ take (Suc i) (players room)) = Some n" for i
  proof -
    from that have "isEligible n"
      and "n \<in> set (drop (Suc i) (players room) @ take (Suc i) (players room))"
      by (auto dest: find_Some_in)
    then show ?thesis unfolding rotated_set by simp
  qed
  show ?thesis
  proof (cases f)
    case None
    with assms plain show ?thesis by (simp add: getNextEligiblePlayer_find)
  next
    case (Some f')
    with assms plain rotated show ?thesis
      by (cases "findIndex (\<lambda>player. idP player = f') (players room)")
         (simp_all add: getNextEligiblePlayer_find)
  qed
qed

lemma game_ok_finishGame [simp]: "game_ok (finishGame room w now)"
  by (simp add: game_ok_def finishGame_def)

lemma players_ok_finishGame [simp]: "players_ok (finishGame room w now) = players_ok room"
  by (simp add: players_ok_def finishGame_def)

lemma game_ok_advanceTurn [simp]: "game_ok (advanceTurn room f now rnd)"
  by (auto simp: game_ok_def advanceTurn_def finishGame_def Let_def getEligiblePlayers_def
           split: option.splits dest: getNext_Some)

lemma players_ok_advanceTurn [simp]: "players_ok (advanceTurn room f now rnd) = players_ok room"
  by (simp add: players_ok_def advanceTurn_def finishGame_def Let_def split: option.splits)

lemma room_inv_advanceTurn: "players_ok room \<Longrightarrow> room_inv (advanceTurn room f now rnd)"
  by (simp add: room_inv_def)

lemma set_updatePlayer: "q \<in> set (updatePlayer i f ps) \<Longrightarrow> q \<in> set ps \<or> (\<exists>p \<in> set ps. idP p = i \<and> q = f p)"
  by (induction ps) (auto split: if_splits)

lemma updatePlayer_keeps_other:
  "p \<in> set ps \<Longrightarrow> idP p \<noteq> i \<Longrightarrow> p \<in> set (updatePlayer i f ps)"
  by (induction ps) auto

lemma updatePlayer_image:
  "p \<in> set ps \<Longrightarrow> p \<in> set (updatePlayer i f ps) \<or> f p \<in> set (updatePlayer i f ps)"
  by (induction ps) auto

lemma eligible_count_updatePlayer:
  "(\<And>p. isEligible p \<Longrightarrow> isEligible (f p)) \<Longrightarrow>
   length (filter isEligible ps) \<le> length (filter isEligible (updatePlayer i f ps))"
  by (induction ps) auto

lemma players_ok_update:
  assumes "players_ok room"
      and "\<And>p. idP (f p) = idP p"
      and "\<And>p. \<not> eliminated p \<longrightarrow> 1 \<le> lives p \<Longrightarrow> \<not> eliminated (f p) \<longrightarrow> 1 \<le> lives (f p)"
  shows "players_ok (room\<lparr>players := updatePlayer i f (players room)\<rparr>)"
  using assms unfolding players_ok_def
  by (auto dest!: set_updatePlayer) 

lemma room_inv_fields:
  assumes "phase r' = phase r" "players r' = players r" "activePlayerId r' = activePlayerId r"
      and "startingLives (config r') = startingLives (config r)"
  shows "room_inv r' = room_inv r"
  using assms by (simp add: room_inv_def game_ok_def players_ok_def getEligiblePlayers_def)

lemma room_inv_bookkeeping [simp]:
  "room_inv (r\<lparr>updatedAt := t\<rparr>) = room_inv r"
  "room_inv (r\<lparr>lastEvent := e\<rparr>) = room_inv r"
  "room_inv (r\<lparr>emptySince := m\<rparr>) = room_inv r"
  by (rule room_inv_fields; simp)+

lemma phase_ensureHost [simp]: "phase (ensureHostIsConnected room) = phase room"
  by (simp add: ensureHostIsConnected_def split: option.splits)

lemma active_ensureHost [simp]:
  "activePlayerId (ensureHostIsConnected room) = activePlayerId room"
  by (simp add: ensureHostIsConnected_def split: option.splits)

lemma config_ensureHost [simp]: "config (ensureHostIsConnected room) = config room"
  by (simp add: ensureHostIsConnected_def split: option.splits)

lemma room_inv_ensureHost [simp]: "room_inv (ensureHostIsConnected room) = room_inv room"
  by (rule room_inv_fields) simp_all

lemma room_inv_finishGame: "players_ok room \<Longrightarrow> room_inv (finishGame room w now)"
  by (simp add: room_inv_def)

lemma resetPlayer_simps [simp]:
  "isEligible (resetPlayer room p) = connected p"
  "idP (resetPlayer room p) = idP p"
  "eliminated (resetPlayer room p) = False"
  "lives (resetPlayer room p) = startingLives (config room)"
  by (simp_all add: isEligible_def resetPlayer_def)

lemma isEligible_reset_comp [simp]: "isEligible \<circ> resetPlayer room = connected"
  by (rule ext) simp

lemma clampInt_lower: "mn \<le> clampInt v mn mx"
  by (simp add: clampInt_def split: jsnumber.splits)

lemma loseLife_simps [simp]:
  "idP (loseLife p) = idP p"
  "\<not> eliminated (loseLife p) \<longrightarrow> 1 \<le> lives (loseLife p)"
  by (auto simp: loseLife_def Let_def)

lemma room_inv_newRoom:
  "room_inv (newRoom rc (newPlayer (createPlayerId x) nm sock DEFAULT_STARTING_LIVES now) d now)"
  by (simp add: room_inv_def game_ok_def players_ok_def newRoom_def newPlayer_def
        createPlayerId_def DEFAULT_STARTING_LIVES_def)

lemma room_inv_addPlayer:
  "room_inv room \<Longrightarrow> phase room = lobby \<Longrightarrow>
   room_inv (addPlayer room
     (newPlayer (createPlayerId x) nm sock (startingLives (config room)) now) now)"
  by (auto simp: room_inv_def game_ok_def players_ok_def addPlayer_def newPlayer_def
        createPlayerId_def)

lemma room_inv_applySettings:
  "room_inv room \<Longrightarrow> phase room = lobby \<Longrightarrow> room_inv (applySettings room d ts sl de now)"
  using clampInt_lower [of MIN_STARTING_LIVES _ MAX_STARTING_LIVES]
  by (auto simp: room_inv_def game_ok_def players_ok_def applySettings_def Let_def
        MIN_STARTING_LIVES_def split: option.splits)

lemma room_inv_resetMatch: "room_inv room \<Longrightarrow> room_inv (resetMatch room now)"
  by (auto simp: room_inv_def game_ok_def players_ok_def resetMatch_def)

lemma room_inv_prepare_failed:
  "room_inv room \<Longrightarrow> room_inv ((prepareMatch room)\<lparr>phase := lobby\<rparr>)"
  by (auto simp: room_inv_def game_ok_def players_ok_def prepareMatch_def)

lemma room_inv_beginMatch:
  assumes "room_inv room" "MIN_PLAYERS_TO_START \<le> connectedCount room"
      and "getNextEligiblePlayer (prepareMatch room) None = Some firstActive"
  shows "room_inv (beginMatch (prepareMatch room) firstActive now rnd)"
proof -
  have "firstActive \<in> set (players (prepareMatch room)) \<and> isEligible firstActive"
    using assms(3) by (rule getNext_Some)
  with assms(1,2) show ?thesis
    by (auto simp: room_inv_def game_ok_def players_ok_def prepareMatch_def beginMatch_def
          getEligiblePlayers_def connectedCount_def MIN_PLAYERS_TO_START_def)
qed

lemma room_inv_acceptWord:
  assumes "room_inv room"
  shows "room_inv (acceptWord room player word now rnd)"
proof -
  have "players_ok (room\<lparr>usedWords := u, usedWordsOrdered := uo,
           players := updatePlayer i (\<lambda>p. p\<lparr>score := score p + 1\<rparr>) (players room),
           lastEvent := e\<rparr>)" for u uo i e
    using assms by (auto simp: room_inv_def players_ok_def dest!: set_updatePlayer)
  then show ?thesis
    by (simp add: acceptWord_def Let_def room_inv_advanceTurn)
qed

lemma room_inv_handleTimerExpiry:
  "room_inv room \<Longrightarrow> room_inv (handleTimerExpiry room now rnd)"
proof -
  assume inv: "room_inv room"
  then have ok: "players_ok room" by (simp add: room_inv_def)
  have ok1: "players_ok (room\<lparr>players := updatePlayer a loseLife (players room), lastEvent := e\<rparr>)"
    for a e
    using ok by (auto simp: players_ok_def dest!: set_updatePlayer)
  show ?thesis
    using inv
    by (simp add: handleTimerExpiry_def Let_def room_inv_advanceTurn ok ok1
          split: option.splits)
qed

lemma room_inv_tickRoom: "room_inv room \<Longrightarrow> room_inv (tickRoom now rnd room)"
  by (simp add: tickRoom_def room_inv_handleTimerExpiry)


lemma markDisconnected_simps [simp]:
  "idP (markDisconnected p) = idP p"
  "lives (markDisconnected p) = lives p"
  "eliminated (markDisconnected p) = eliminated p"
  "connected (markDisconnected p) = False"
  by (simp_all add: markDisconnected_def)

lemma room_inv_dropPlayer:
  assumes "room_inv room"
  shows "room_inv (dropPlayer room player now rnd)"
proof -
  define room1 where
    "room1 = room\<lparr>players := updatePlayer (idP player) markDisconnected (players room)\<rparr>"
  define room2 where
    "room2 = (if idP player = hostId room1 then ensureHostIsConnected room1 else room1)"
  define room3 where
    "room3 = (if phase room2 = in_game then
               (if activePlayerId room2 = Some (idP player) then
                  advanceTurn
                    (room2\<lparr>lastEvent := name player @
                       '' disconnected. Bomb moved to next player.''\<rparr>)
                    (Some (idP player)) now rnd
                else
                  (let eligible = getEligiblePlayers room2 in
                   if length eligible \<le> 1
                   then finishGame room2 (first eligible) now
                   else room2))
             else room2)"
  have ok1: "players_ok room1"
    using assms by (auto simp: room1_def room_inv_def players_ok_def dest!: set_updatePlayer)
  then have ok2: "players_ok room2"
    by (simp add: room2_def players_ok_def)
  have ph: "phase room2 = phase room" and act: "activePlayerId room2 = activePlayerId room"
    and pl: "players room2 = updatePlayer (idP player) markDisconnected (players room)"
    by (simp_all add: room2_def room1_def)
  have keep: "game_ok room2"
    if other: "activePlayerId room2 \<noteq> Some (idP player)"
      and many: "\<not> length (getEligiblePlayers room2) \<le> 1"
  proof -
    have "\<exists>p\<in>set (players room2). activePlayerId room2 = Some (idP p) \<and> isEligible p"
      if g: "phase room = in_game"
    proof -
      from assms g obtain p where p: "p \<in> set (players room)"
        "activePlayerId room = Some (idP p)" "isEligible p"
        by (auto simp: room_inv_def game_ok_def)
      with other act have "idP p \<noteq> idP player" by auto
      with p(1) have "p \<in> set (players room2)" by (simp add: pl updatePlayer_keeps_other)
      with p act show ?thesis by auto
    qed
    with many ph show ?thesis
      by (auto simp: game_ok_def)
  qed
  have ok2e: "players_ok (room2\<lparr>lastEvent := e\<rparr>)" for e
    using ok2 by (simp add: players_ok_def)
  have "room_inv room3"
  proof (cases "phase room2 = in_game")
    case True
    show ?thesis
    proof (cases "activePlayerId room2 = Some (idP player)")
      case a: True
      with True show ?thesis by (simp add: room3_def room_inv_advanceTurn ok2e)
    next
      case a: False
      show ?thesis
      proof (cases "length (getEligiblePlayers room2) \<le> 1")
        case e: True
        with True a show ?thesis by (simp add: room3_def room_inv_finishGame ok2)
      next
        case e: False
        with True a keep ok2 show ?thesis by (simp add: room3_def room_inv_def)
      qed
    qed
  next
    case False
    with ok2 show ?thesis by (simp add: room3_def room_inv_def game_ok_def)
  qed
  moreover have "dropPlayer room player now rnd =
      room3\<lparr>emptySince := (if connectedCount room3 = 0 then Some now else None),
             updatedAt := now\<rparr>"
    by (simp add: dropPlayer_def room3_def room2_def room1_def Let_def)
  ultimately show ?thesis by simp
qed

lemma rebind_simps [simp]:
  "idP (rebind n sock p) = idP p"
  "lives (rebind n sock p) = lives p"
  "eliminated (rebind n sock p) = eliminated p"
  "connected (rebind n sock p) = True"
  by (simp_all add: rebind_def)

lemma resumeTurn_idle: "game_ok room \<Longrightarrow> resumeTurn room now rnd = room"
  by (auto simp: resumeTurn_def game_ok_def)

lemma room_inv_rebound:
  assumes "room_inv room"
  shows "room_inv (room\<lparr>players := updatePlayer i (rebind n sock) (players room)\<rparr>)"
    (is "room_inv ?room1")
proof -
  have ok1: "players_ok ?room1"
    using assms by (auto simp: room_inv_def players_ok_def dest!: set_updatePlayer)
  have el: "isEligible p \<Longrightarrow> isEligible (rebind n sock p)" for p
    by (simp add: isEligible_def)
  have "game_ok ?room1"
  proof (cases "phase room = in_game")
    case True
    with assms obtain p where p: "p \<in> set (players room)"
        "activePlayerId room = Some (idP p)" "isEligible p"
        and two: "2 \<le> length (filter isEligible (players room))"
      by (auto simp: room_inv_def game_ok_def getEligiblePlayers_def)
    have "\<exists>q\<in>set (players ?room1). activePlayerId ?room1 = Some (idP q) \<and> isEligible q"
      using updatePlayer_image [OF p(1), of i "rebind n sock"]
    proof
      assume "p \<in> set (updatePlayer i (rebind n sock) (players room))"
      with p(2,3) show ?thesis by (intro bexI [of _ p]) simp_all
    next
      assume "rebind n sock p \<in> set (updatePlayer i (rebind n sock) (players room))"
      with p(2,3) el show ?thesis by (intro bexI [of _ "rebind n sock p"]) simp_all
    qed
    moreover have "2 \<le> length (getEligiblePlayers ?room1)"
      using two eligible_count_updatePlayer [of "rebind n sock" "players room" i] el
      by (simp add: getEligiblePlayers_def)
    ultimately show ?thesis by (simp add: game_ok_def)
  next
    case False
    then show ?thesis by (simp add: game_ok_def)
  qed
  with ok1 show ?thesis by (simp add: room_inv_def)
qed

lemma room_inv_rebindPlayer:
  assumes "room_inv room"
  shows "room_inv (rebindPlayer room player sock nameInput now rnd)"
proof -
  have "room_inv (ensureHostIsConnected
          (room\<lparr>players := updatePlayer i (rebind n sock) (players room)\<rparr>\<lparr>emptySince := None\<rparr>))"
    (is "room_inv ?room2") for i n
    using room_inv_rebound [OF assms, of i n sock] by simp
  then have "room_inv (resumeTurn
          (ensureHostIsConnected
             (room\<lparr>players := updatePlayer i (rebind n sock) (players room)\<rparr>\<lparr>emptySince := None\<rparr>))
          now rnd)" for i n
    by (simp add: resumeTurn_idle room_inv_def del: room_inv_ensureHost)
  then show ?thesis
    by (simp add: rebindPlayer_def Let_def del: room_inv_ensureHost)
qed

subsection \<open>Every handler keeps the invariant\<close>

lemma rooms_bind [simp]: "rooms (bindSocketSession sock rc pl s) = rooms s"
  by (simp add: bindSocketSession_def)

lemma server_inv_bind [simp]: "server_inv (bindSocketSession sock rc pl s) = server_inv s"
  by (simp add: server_inv_def)

lemma server_inv_room: "server_inv s \<Longrightarrow> rooms s c = Some room \<Longrightarrow> room_inv room"
  by (simp add: server_inv_def)

lemma server_inv_createRoom:
  "server_inv s \<Longrightarrow> server_inv (snd (createRoom sock nm attempts idSuffix now s))"
  by (auto simp: createRoom_def Let_def server_inv_def room_inv_newRoom split: option.splits)

lemma server_inv_joinRoom:
  "server_inv s \<Longrightarrow> server_inv (snd (joinRoom sock rc nm idSuffix now s))"
  by (auto simp: joinRoom_def Let_def server_inv_def room_inv_addPlayer split: option.splits)

lemma server_inv_reconnectPlayer:
  "server_inv s \<Longrightarrow> server_inv (snd (reconnectPlayer sock rc pl nm now rnd s))"
  by (auto simp: reconnectPlayer_def Let_def server_inv_def room_inv_rebindPlayer
      split: option.splits)

lemma server_inv_updateSettings:
  "server_inv s \<Longrightarrow> server_inv (snd (updateSettings sock rc pl ts sl de now s))"
  by (auto simp: updateSettings_def Let_def server_inv_def room_inv_applySettings
      split: option.splits)

lemma server_inv_startGame:
  "server_inv s \<Longrightarrow> server_inv (snd (startGame sock rc pl now rnd s))"
  by (auto simp: startGame_def Let_def server_inv_def room_inv_prepare_failed
        room_inv_beginMatch not_less split: option.splits)

lemma server_inv_submitWord:
  "server_inv s \<Longrightarrow> server_inv (snd (submitWord sock rc pl w now rnd s))"
  by (auto simp: submitWord_def Let_def server_inv_def room_inv_acceptWord split: option.splits)

lemma server_inv_playAgain:
  "server_inv s \<Longrightarrow> server_inv (snd (playAgain sock rc pl now s))"
  by (auto simp: playAgain_def Let_def server_inv_def room_inv_resetMatch split: option.splits)

lemma server_inv_handleDisconnect:
  "server_inv s \<Longrightarrow> server_inv (handleDisconnect sock now rnd s)"
  by (auto simp: handleDisconnect_def Let_def server_inv_def room_inv_dropPlayer
      split: option.splits)

lemma server_inv_tick: "server_inv s \<Longrightarrow> server_inv (tick now rnd s)"
  by (auto simp: tick_def server_inv_def room_inv_tickRoom)

lemma server_inv_cleanupRooms: "server_inv s \<Longrightarrow> server_inv (cleanupRooms now s)"
  by (auto simp: cleanupRooms_def server_inv_def split: option.splits if_splits)

lemma server_inv_step: "server_inv s \<Longrightarrow> server_inv (step e s)"
  by (cases e)
     (simp_all add: server_inv_createRoom server_inv_joinRoom server_inv_reconnectPlayer
        server_inv_updateSettings server_inv_startGame server_inv_submitWord
        server_inv_playAgain server_inv_handleDisconnect server_inv_tick
        server_inv_cleanupRooms)

lemma reachable_server_inv: "reachable s \<Longrightarrow> server_inv s"
  by (induction rule: reachable.induct)
     (simp_all add: server_inv_def newGameService_def server_inv_step [unfolded server_inv_def])


section \<open>The active player\<close>

lemma reachable_run: "reachable s \<Longrightarrow> reachable (run es s)"
  by (induction es arbitrary: s) (simp_all add: reachable_step)

lemma gameServer_reachable: "reachable gameServer"
  unfolding gameServer_def by (rule reachable_run) (rule reachable_new)

text \<open>
  C1. In every state that the server can reach by handling events (the state after each
  inbound action, disconnect, tick or sweep), a room whose phase is \<open>in_game\<close> has an active
  player id, and that id belongs to a player of the room's list who is connected and not
  eliminated.
\<close>

theorem active_player_is_eligible:
  assumes "reachable s" and "rooms s c = Some room" and "phase room = in_game"
  shows "\<exists>p \<in> set (players room).
           activePlayerId room = Some (idP p) \<and> connected p \<and> \<not> eliminated p"
proof -
  from assms(1) have "server_inv s" by (rule reachable_server_inv)
  with assms(2) have "game_ok room" by (auto simp: server_inv_def room_inv_def)
  with assms(3) show ?thesis by (simp add: game_ok_def isEligible_def)
qed

lemma gameServer_game:
  "phase (roomOf gameServer) = in_game"
  "activePlayerId (roomOf gameServer) = Some ''p_a''"
  "timerEndsAt (roomOf gameServer) = Some 13000"
  "currentChunk (roomOf gameServer) = Some ''AR''"
  by (simp_all add: session_simps eval_simps getNextEligiblePlayer_def scanFrom.simps)

theorem active_player_is_eligible_witness:
  "phase (roomOf gameServer) = in_game \<and>
   activePlayerId (roomOf gameServer) = Some ''p_a'' \<and>
   (\<exists>p \<in> set (players (roomOf gameServer)).
      activePlayerId (roomOf gameServer) = Some (idP p) \<and> connected p \<and> \<not> eliminated p)"
  using active_player_is_eligible [OF gameServer_reachable gameServer_facts(2) gameServer_game(1)]
    gameServer_game
  by simp

section \<open>What one event does to a room\<close>

lemma createRoomCode_fresh: "createRoomCode codes attempts = Some rc \<Longrightarrow> rc \<notin> codes"
  by (auto simp: createRoomCode_def dest: find_Some_in)

lemma step_roomChange:
  assumes "rooms s c = Some room" and "rooms (step e s) c = Some room'"
  shows "roomChange e room room'"
proof (cases e)
  case (CreateRoom sock nm attempts idSuffix now)
  have "c \<noteq> rc" if "createRoomCode (dom (rooms s)) attempts = Some rc" for rc
    using createRoomCode_fresh [OF that] assms(1) by auto
  with assms CreateRoom have "room' = room"
    by (auto simp: createRoom_def Let_def split: option.splits if_splits)
  then show ?thesis by (simp add: roomChange.unchanged)
next
  case (JoinRoom sock rc nm idSuffix now)
  with assms show ?thesis
    by (auto simp: joinRoom_def Let_def split: option.splits if_splits
          intro: roomChange.intros)
next
  case (Reconnect sock rc pl nm now rnd)
  with assms show ?thesis
    by (auto simp: reconnectPlayer_def Let_def split: option.splits if_splits
          intro: roomChange.intros)
next
  case (UpdateSettings sock rc pl ts sl de now)
  with assms show ?thesis
    by (auto simp: updateSettings_def Let_def split: option.splits if_splits
          intro: roomChange.intros)
next
  case (StartGame sock rc pl now rnd)
  with assms show ?thesis
    by (auto simp: startGame_def Let_def split: option.splits if_splits
          intro: roomChange.intros)
next
  case (SubmitWord sock rc pl w now rnd)
  with assms show ?thesis
    by (auto simp: submitWord_def Let_def split: option.splits if_splits
          intro: roomChange.intros)
next
  case (PlayAgain sock rc pl now)
  with assms show ?thesis
    by (auto simp: playAgain_def Let_def split: option.splits if_splits
          intro: roomChange.intros)
next
  case (Disconnect sock now rnd)
  with assms show ?thesis
    by (auto simp: handleDisconnect_def Let_def split: option.splits if_splits
          intro: roomChange.intros)
next
  case (Tick now rnd)
  with assms show ?thesis by (auto simp: tick_def intro: roomChange.intros)
next
  case (CleanupRooms now)
  with assms show ?thesis
    by (auto simp: cleanupRooms_def split: option.splits if_splits intro: roomChange.intros)
qed

lemma usedWords_kept [simp]:
  "usedWords (finishGame room w now) = usedWords room"
  "usedWords (advanceTurn room f now rnd) = usedWords room"
  "usedWords (ensureHostIsConnected room) = usedWords room"
  "usedWords (resumeTurn room now rnd) = usedWords room"
  by (simp_all add: finishGame_def advanceTurn_def ensureHostIsConnected_def resumeTurn_def
        Let_def split: option.splits)

lemma usedWords_handleTimerExpiry [simp]:
  "usedWords (handleTimerExpiry room now rnd) = usedWords room"
  by (simp add: handleTimerExpiry_def Let_def split: option.splits)

lemma usedWords_room_functions [simp]:
  "usedWords (tickRoom now rnd room) = usedWords room"
  "usedWords (dropPlayer room player now rnd) = usedWords room"
  "usedWords (rebindPlayer room player sock nm now rnd) = usedWords room"
  "usedWords (addPlayer room player now) = usedWords room"
  "usedWords (applySettings room d ts sl de now) = usedWords room"
  "usedWords (acceptWord room player word now rnd) = insert word (usedWords room)"
  by (simp_all add: tickRoom_def dropPlayer_def rebindPlayer_def addPlayer_def
        applySettings_def acceptWord_def Let_def)

lemma roomChange_usedWords:
  assumes "roomChange e room room'"
  shows "usedWords room \<subseteq> usedWords room' \<or>
         (phase room \<noteq> in_game \<and>
           ((\<exists>sock rc pl now rnd. e = StartGame sock rc pl now rnd) \<or>
            (\<exists>sock rc pl now. e = PlayAgain sock rc pl now)))"
  using assms by cases auto

lemma phase_kept [simp]:
  "phase (resumeTurn room now rnd) = phase room"
  "phase (rebindPlayer room player sock nm now rnd) = phase room"
  by (simp_all add: resumeTurn_def rebindPlayer_def Let_def split: option.splits)

lemma soleWinner_bookkeeping [simp]:
  "soleWinner (r\<lparr>updatedAt := t\<rparr>) = soleWinner r"
  "soleWinner (r\<lparr>lastEvent := ev\<rparr>) = soleWinner r"
  "soleWinner (r\<lparr>emptySince := m\<rparr>) = soleWinner r"
  by (simp_all add: soleWinner_def getEligiblePlayers_def)

lemma soleWinner_finishGame:
  "soleWinner (finishGame room (first (getEligiblePlayers room)) now)"
  by (simp add: soleWinner_def finishGame_def getEligiblePlayers_def)

lemma advanceTurn_outcome:
  "phase room = in_game \<Longrightarrow>
   phase (advanceTurn room f now rnd) = in_game \<or> soleWinner (advanceTurn room f now rnd)"
  by (simp add: advanceTurn_def Let_def soleWinner_finishGame split: option.splits)

lemma phase_bookkeeping [simp]:
  "phase (r\<lparr>updatedAt := t\<rparr>) = phase r"
  by simp

lemma acceptWord_outcome:
  "phase room = in_game \<Longrightarrow>
   phase (acceptWord room player word now rnd) = in_game \<or>
   soleWinner (acceptWord room player word now rnd)"
  using advanceTurn_outcome by (simp add: acceptWord_def Let_def)

lemma handleTimerExpiry_outcome:
  "phase room = in_game \<Longrightarrow>
   phase (handleTimerExpiry room now rnd) = in_game \<or>
   soleWinner (handleTimerExpiry room now rnd)"
  using advanceTurn_outcome
  by (simp add: handleTimerExpiry_def Let_def split: option.splits)

lemma dropPlayer_outcome:
  "phase room = in_game \<Longrightarrow>
   phase (dropPlayer room player now rnd) = in_game \<or>
   soleWinner (dropPlayer room player now rnd)"
  using advanceTurn_outcome soleWinner_finishGame
  by (simp add: dropPlayer_def Let_def)

lemma roomChange_outcome:
  assumes "roomChange e room room'" and "phase room = in_game"
  shows "phase room' = in_game \<or> soleWinner room'"
  using assms
proof cases
  case (accepted player word now rnd)
  with assms(2) show ?thesis using acceptWord_outcome by simp
next
  case (dropped player now rnd)
  with assms(2) show ?thesis using dropPlayer_outcome by simp
next
  case (ticked now rnd)
  with assms(2) show ?thesis using handleTimerExpiry_outcome by (simp add: tickRoom_def)
qed simp_all

section \<open>End of the match\<close>

text \<open>
  C3. Take a room that is in a match in a reachable state, and any event the server handles
  (a tick with its timer expiry, a word submission with its turn advance, a disconnect, or
  any other). If the room has exactly one eligible player after the event, then the event has
  set the phase to \<open>results\<close> and the winner id to the id of that player.
\<close>

theorem sole_survivor_wins:
  assumes "reachable s"
      and "rooms s c = Some room"
      and "phase room = in_game"
      and "rooms (step e s) c = Some room'"
      and "getEligiblePlayers room' = [p]"
  shows "phase room' = results \<and> winnerId room' = Some (idP p)"
proof -
  have "roomChange e room room'"
    using assms(2,4) by (rule step_roomChange)
  then have "phase room' = in_game \<or> soleWinner room'"
    using assms(3) by (rule roomChange_outcome)
  moreover have "phase room' \<noteq> in_game"
  proof
    assume g: "phase room' = in_game"
    have "reachable (step e s)" using assms(1) by (rule reachable_step)
    then have "server_inv (step e s)" by (rule reachable_server_inv)
    with assms(4) have "game_ok room'" by (auto simp: server_inv_def room_inv_def)
    with g assms(5) show False by (simp add: game_ok_def)
  qed
  ultimately have "soleWinner room'" by simp
  with assms(5) show ?thesis by (simp add: soleWinner_def first_def)
qed

lemma droppedServer_reachable: "reachable droppedServer"
  unfolding droppedServer_def using gameServer_reachable by (rule reachable_step)

lemma droppedServer_facts:
  "rooms droppedServer ''ROOMAA'' = Some (roomOf droppedServer)"
  "phase (roomOf droppedServer) = in_game"
  by (simp_all add: session_simps eval_simps getNextEligiblePlayer_def scanFrom.simps)

lemma finalServer_facts:
  "rooms (step (Disconnect ''s3'' 3600 0) droppedServer) ''ROOMAA'' = Some (roomOf finalServer)"
  "getEligiblePlayers (roomOf finalServer) =
     [\<lparr>idP = ''p_a'', name = ''Ava'', joinedAt = 1000, socketId = Some ''s1'',
        connected = True, score = 0, lives = 3, eliminated = False\<rparr>]"
  by (simp_all add: session_simps eval_simps getNextEligiblePlayer_def scanFrom.simps)

theorem sole_survivor_wins_witness:
  "phase (roomOf finalServer) = results \<and> winnerId (roomOf finalServer) = Some ''p_a''"
  using sole_survivor_wins [OF droppedServer_reachable droppedServer_facts finalServer_facts]
  by simp

section \<open>Timer expiry\<close>







section \<open>Used words\<close>

lemma usedWords_cleared [simp]:
  "usedWords (prepareMatch room) = {}"
  "usedWords (beginMatch room firstActive now rnd) = usedWords room"
  "usedWords (resetMatch room now) = {}"
  by (simp_all add: prepareMatch_def beginMatch_def resetMatch_def)

lemma roomChange_usedWords_cases:
  assumes "roomChange e room room'"
  shows "usedWords room' = usedWords room \<or>
         (phase room = in_game \<and>
            (\<exists>sock rc pl w now rnd.
               e = SubmitWord sock rc pl w now rnd \<and>
               usedWords room' = insert (sanitizeWord w) (usedWords room))) \<or>
         (phase room \<noteq> in_game \<and> usedWords room' = {} \<and>
            ((\<exists>sock rc pl now rnd. e = StartGame sock rc pl now rnd) \<or>
             (\<exists>sock rc pl now. e = PlayAgain sock rc pl now)))"
  using assms by cases auto

lemma submitWord_accepted:
  assumes "ok (fst (submitWord sock rc pl w now rnd s))"
  shows "\<exists>room room'.
           rooms s (sanitizeRoomCode rc) = Some room \<and> phase room = in_game \<and>
           sanitizeWord w \<notin> usedWords room \<and>
           rooms (snd (submitWord sock rc pl w now rnd s)) (sanitizeRoomCode rc) = Some room' \<and>
           usedWords room' = insert (sanitizeWord w) (usedWords room)"
  using assms
  by (auto simp: submitWord_def Let_def failure_def split: option.splits if_splits)

lemma submitWord_refused:
  "\<not> ok (fst (submitWord sock rc pl w now rnd s)) \<Longrightarrow>
   rooms (snd (submitWord sock rc pl w now rnd s)) = rooms s"
  by (auto simp: submitWord_def Let_def success_def split: option.splits if_splits)

lemma submitWord_used:
  assumes "rooms s (sanitizeRoomCode rc) = Some room"
      and "phase room = in_game"
      and "sanitizeWord w \<in> usedWords room"
  shows "\<not> ok (fst (submitWord sock rc pl w now rnd s))"
    and "error (fst (submitWord sock rc pl w now rnd s)) =
           (case earlierCheckError s room sock rc pl w now of
              Some msg \<Rightarrow> Some msg
            | None \<Rightarrow> Some ''Word already used in this match.'')"
proof -
  have idp: "idP player = pl" if "getPlayer room pl = Some player" for player
    using that by (simp add: getPlayer_idP)
  show "\<not> ok (fst (submitWord sock rc pl w now rnd s))"
    using assms
    by (auto simp: submitWord_def Let_def failure_def split: option.splits)
  show "error (fst (submitWord sock rc pl w now rnd s)) =
           (case earlierCheckError s room sock rc pl w now of
              Some msg \<Rightarrow> Some msg
            | None \<Rightarrow> Some ''Word already used in this match.'')"
    using assms idp
    by (auto simp: submitWord_def earlierCheckError_def Let_def failure_def socketOwnsPlayer_def
          split: option.splits)
qed

lemma earlierCheckError_None:
  "(earlierCheckError s room sock rc pl w now = None) = passesEarlierChecks s room sock rc pl w now"
  by (auto simp: earlierCheckError_def passesEarlierChecks_def not_less
        split: option.splits dest: getPlayer_idP)

lemma staysInMatch_now:
  "staysInMatch c es s \<Longrightarrow> \<exists>room. rooms s c = Some room \<and> phase room = in_game"
  by (cases es) (auto split: option.splits)

lemma run_keeps_word:
  "rooms s c = Some room \<Longrightarrow> word \<in> usedWords room \<Longrightarrow> staysInMatch c es s \<Longrightarrow>
   \<exists>room'. rooms (run es s) c = Some room' \<and> phase room' = in_game \<and> word \<in> usedWords room'"
proof (induction es arbitrary: s room)
  case Nil
  then show ?case by simp
next
  case (Cons e es)
  from Cons.prems(1,3) have g: "phase room = in_game" and rest: "staysInMatch c es (step e s)"
    by simp_all
  from staysInMatch_now [OF rest] obtain room1 where r1: "rooms (step e s) c = Some room1"
    by blast
  have "roomChange e room room1"
    using Cons.prems(1) r1 by (rule step_roomChange)
  from roomChange_usedWords_cases [OF this] g have "usedWords room \<subseteq> usedWords room1"
    by auto
  with Cons.prems(2) have "word \<in> usedWords room1" by auto
  from Cons.IH [OF r1 this rest] show ?case by simp
qed

lemma accepted_word_stays_refused:
  assumes "ok (fst (submitWord sock rc pl w now rnd s))"
      and "staysInMatch (sanitizeRoomCode rc) es (snd (submitWord sock rc pl w now rnd s))"
      and "sanitizeRoomCode rc' = sanitizeRoomCode rc"
      and "sanitizeWord w' = sanitizeWord w"
  shows "\<not> ok (fst (submitWord sock' rc' pl' w' now' rnd'
                     (run es (snd (submitWord sock rc pl w now rnd s)))))"
proof -
  let ?s1 = "snd (submitWord sock rc pl w now rnd s)"
  from submitWord_accepted [OF assms(1)] obtain room1 where
    "rooms ?s1 (sanitizeRoomCode rc) = Some room1" "sanitizeWord w \<in> usedWords room1"
    by auto
  from run_keeps_word [OF this assms(2)] obtain room2 where
    "rooms (run es ?s1) (sanitizeRoomCode rc') = Some room2" "phase room2 = in_game"
    "sanitizeWord w' \<in> usedWords room2"
    using assms(3,4) by auto
  then show ?thesis by (rule submitWord_used(1))
qed

text \<open>
  C2 (as amended). A \<open>submitWord\<close> call for a room that is in a match, with a word whose
  trimmed and case-folded form is already in the room's used-word set, returns \<open>ok: false\<close>
  and leaves every room unchanged; its error is the word-already-used error when the call
  passes the checks that come before the look-up (rate limit, socket ownership, player
  connected and not eliminated, player's turn, letters only, three letters or more, chunk
  contained), and otherwise the error of the first of those checks that it fails. A
  successful submission adds the folded word to the set, and no other event adds one; the set
  loses words only through \<open>startGame\<close> and \<open>playAgain\<close>, which empty it and do so only for a
  room that is not in a match; during a match the set only grows. So once a word has been
  accepted, every later submission in the same match of a word with the same folded form,
  whatever its letter case, is refused.
\<close>

theorem used_word_is_rejected:
  "(rooms s (sanitizeRoomCode rc) = Some room \<and> phase room = in_game \<and>
    sanitizeWord w \<in> usedWords room \<longrightarrow>
      \<not> ok (fst (submitWord sock rc pl w now rnd s)) \<and>
      rooms (snd (submitWord sock rc pl w now rnd s)) = rooms s \<and>
      error (fst (submitWord sock rc pl w now rnd s)) =
        (case earlierCheckError s room sock rc pl w now of
           Some msg \<Rightarrow> Some msg
         | None \<Rightarrow> Some ''Word already used in this match.'') \<and>
      ((earlierCheckError s room sock rc pl w now = None) =
         passesEarlierChecks s room sock rc pl w now)) \<and>
   (ok (fst (submitWord sock rc pl w now rnd s)) \<longrightarrow>
      (\<exists>r0 r1. rooms s (sanitizeRoomCode rc) = Some r0 \<and> phase r0 = in_game \<and>
               sanitizeWord w \<notin> usedWords r0 \<and>
               rooms (snd (submitWord sock rc pl w now rnd s)) (sanitizeRoomCode rc) = Some r1 \<and>
               usedWords r1 = insert (sanitizeWord w) (usedWords r0))) \<and>
   (\<not> ok (fst (submitWord sock rc pl w now rnd s)) \<longrightarrow>
      rooms (snd (submitWord sock rc pl w now rnd s)) = rooms s) \<and>
   (rooms s c = Some r \<and> rooms (step e s) c = Some r' \<longrightarrow>
      (phase r = in_game \<longrightarrow> usedWords r \<subseteq> usedWords r') \<and>
      (usedWords r' = usedWords r \<or>
       (phase r = in_game \<and>
          (\<exists>sock rc pl w now rnd.
             e = SubmitWord sock rc pl w now rnd \<and>
             usedWords r' = insert (sanitizeWord w) (usedWords r))) \<or>
       (phase r \<noteq> in_game \<and> usedWords r' = {} \<and>
          ((\<exists>sock rc pl now rnd. e = StartGame sock rc pl now rnd) \<or>
           (\<exists>sock rc pl now. e = PlayAgain sock rc pl now))))) \<and>
   (ok (fst (submitWord sock rc pl w now rnd s)) \<and>
    staysInMatch (sanitizeRoomCode rc) es (snd (submitWord sock rc pl w now rnd s)) \<and>
    sanitizeRoomCode rc' = sanitizeRoomCode rc \<and> sanitizeWord w' = sanitizeWord w \<longrightarrow>
      \<not> ok (fst (submitWord sock' rc' pl' w' now' rnd'
                   (run es (snd (submitWord sock rc pl w now rnd s))))))"
proof -
  have used: "\<not> ok (fst (submitWord sock rc pl w now rnd s)) \<and>
      rooms (snd (submitWord sock rc pl w now rnd s)) = rooms s \<and>
      error (fst (submitWord sock rc pl w now rnd s)) =
        (case earlierCheckError s room sock rc pl w now of
           Some msg \<Rightarrow> Some msg
         | None \<Rightarrow> Some ''Word already used in this match.'') \<and>
      ((earlierCheckError s room sock rc pl w now = None) =
         passesEarlierChecks s room sock rc pl w now)"
    if "rooms s (sanitizeRoomCode rc) = Some room" "phase room = in_game"
       "sanitizeWord w \<in> usedWords room"
    using submitWord_used [OF that, of sock pl now rnd]
      submitWord_refused [of sock rc pl w now rnd s]
    by (simp add: earlierCheckError_None)
  have step: "(phase r = in_game \<longrightarrow> usedWords r \<subseteq> usedWords r') \<and>
      (usedWords r' = usedWords r \<or>
       (phase r = in_game \<and>
          (\<exists>sock rc pl w now rnd.
             e = SubmitWord sock rc pl w now rnd \<and>
             usedWords r' = insert (sanitizeWord w) (usedWords r))) \<or>
       (phase r \<noteq> in_game \<and> usedWords r' = {} \<and>
          ((\<exists>sock rc pl now rnd. e = StartGame sock rc pl now rnd) \<or>
           (\<exists>sock rc pl now. e = PlayAgain sock rc pl now))))"
    if "rooms s c = Some r" "rooms (step e s) c = Some r'"
  proof -
    have "roomChange e r r'" using that by (rule step_roomChange)
    from roomChange_usedWords_cases [OF this] show ?thesis by auto
  qed
  show ?thesis
    using used submitWord_accepted [of sock rc pl w now rnd s]
      submitWord_refused [of sock rc pl w now rnd s] step
      accepted_word_stays_refused [of sock rc pl w now rnd s es rc' w' sock' pl' now' rnd']
    by (intro conjI impI) blast+
qed

lemma gameServer_more:
  "usedWords (roomOf gameServer) = {}"
  "dictionaryEnabled (config (roomOf gameServer)) = False"
  "turnSeconds (config (roomOf gameServer)) = 10"
  "socketSessions gameServer ''s2'' = Some \<lparr>roomCode = ''ROOMAA'', playerId = ''p_b''\<rparr>"
  "lastSubmitAtBySocket gameServer ''s1'' = None"
  "lastSubmitAtBySocket gameServer ''s2'' = None"
  by (simp_all add: session_simps eval_simps getNextEligiblePlayer_def scanFrom.simps)

lemmas word_simps =
  sanitizeRoomCode_def sanitizeWord_def trim_def toLowerCase_def toUpperCase_def
  toLowerChar_def toUpperStr_def isUpper_def isLower_def isDigit_def isSpace_def

lemmas turn_simps =
  acceptWord_def advanceTurn_def finishGame_def getEligiblePlayers_def isEligible_def
  getNextEligiblePlayer_def scanFrom.simps chooseChunk_def CHUNKS_def nth_js_def first_def
  getPlayer_def Let_def

lemma playedServer_facts:
  "rooms playedServer ''ROOMAA'' =
     Some (acceptWord (roomOf gameServer)
             \<lparr>idP = ''p_a'', name = ''Ava'', joinedAt = 1000, socketId = Some ''s1'',
              connected = True, score = 0, lives = 3, eliminated = False\<rparr> ''art'' 4000 0)"
  "socketSessions playedServer ''s2'' = Some \<lparr>roomCode = ''ROOMAA'', playerId = ''p_b''\<rparr>"
  "lastSubmitAtBySocket playedServer ''s2'' = None"
  by (simp_all add: playedServer_def submitWord_def Let_def gameServer_facts gameServer_game
        gameServer_more word_simps getPlayer_def socketOwnsPlayer_def SUBMIT_RATE_LIMIT_MS_def)

lemma playedRoom:
  "roomOf playedServer =
     acceptWord (roomOf gameServer)
       \<lparr>idP = ''p_a'', name = ''Ava'', joinedAt = 1000, socketId = Some ''s1'',
        connected = True, score = 0, lives = 3, eliminated = False\<rparr> ''art'' 4000 0"
  by (simp add: roomOf_def playedServer_facts)

lemma playedRoom_facts:
  "phase (acceptWord (roomOf gameServer) p ''art'' 4000 0) = in_game"
  "usedWords (acceptWord (roomOf gameServer) p ''art'' 4000 0) = {''art''}"
  "currentChunk (acceptWord (roomOf gameServer) p ''art'' 4000 0) = Some ''ER''"
  by (simp_all add: turn_simps gameServer_facts gameServer_game gameServer_more)

theorem used_word_other_error_counterexample:
  "rooms playedServer (sanitizeRoomCode ''ROOMAA'') = Some (roomOf playedServer) \<and>
   phase (roomOf playedServer) = in_game \<and>
   sanitizeWord ''ART'' \<in> usedWords (roomOf playedServer) \<and>
   fst (submitWord ''s2'' ''ROOMAA'' ''p_b'' ''ART'' 5000 0 playedServer) =
     failure (''Word must include chunk '' @ [CHR 0x22] @ ''ER'' @ [CHR 0x22] @ ''.'') \<and>
   error (fst (submitWord ''s2'' ''ROOMAA'' ''p_b'' ''ART'' 5000 0 playedServer)) \<noteq>
     Some ''Word already used in this match.''"
  by (simp add: playedRoom submitWord_def Let_def playedServer_facts playedRoom_facts word_simps
        socketOwnsPlayer_def SUBMIT_RATE_LIMIT_MS_def failure_def turn_simps
        gameServer_facts gameServer_game gameServer_more)

lemma careerServer_facts:
  "rooms careerServer ''ROOMAA'' =
     Some (acceptWord (roomOf gameServer)
             \<lparr>idP = ''p_a'', name = ''Ava'', joinedAt = 1000, socketId = Some ''s1'',
              connected = True, score = 0, lives = 3, eliminated = False\<rparr> ''career'' 4000 0)"
  "socketSessions careerServer ''s2'' = Some \<lparr>roomCode = ''ROOMAA'', playerId = ''p_b''\<rparr>"
  "lastSubmitAtBySocket careerServer ''s2'' = None"
  by (simp_all add: careerServer_def submitWord_def Let_def gameServer_facts gameServer_game
        gameServer_more word_simps getPlayer_def socketOwnsPlayer_def SUBMIT_RATE_LIMIT_MS_def)

lemma careerRoom:
  "roomOf careerServer =
     acceptWord (roomOf gameServer)
       \<lparr>idP = ''p_a'', name = ''Ava'', joinedAt = 1000, socketId = Some ''s1'',
        connected = True, score = 0, lives = 3, eliminated = False\<rparr> ''career'' 4000 0"
  by (simp add: roomOf_def careerServer_facts)

lemma careerRoom_facts:
  "rooms careerServer (sanitizeRoomCode ''ROOMAA'') = Some (roomOf careerServer)"
  "phase (roomOf careerServer) = in_game"
  "sanitizeWord '' CAREER '' \<in> usedWords (roomOf careerServer)"
  "passesEarlierChecks careerServer (roomOf careerServer) ''s2'' ''ROOMAA'' ''p_b''
     '' CAREER '' 5000"
  by (simp_all add: careerRoom careerServer_facts passesEarlierChecks_def word_simps turn_simps
        socketOwnsPlayer_def SUBMIT_RATE_LIMIT_MS_def
        gameServer_facts gameServer_game gameServer_more)

lemma careerServer_run:
  "ok (fst (submitWord ''s1'' ''ROOMAA'' ''p_a'' ''Career'' 4000 0 gameServer))"
  "snd (submitWord ''s1'' ''ROOMAA'' ''p_a'' ''Career'' 4000 0 gameServer) = careerServer"
  "staysInMatch (sanitizeRoomCode ''ROOMAA'') [Tick 4500 (\<lambda>_. 0)] careerServer"
  "sanitizeRoomCode ''roomaa'' = sanitizeRoomCode ''ROOMAA''"
  "sanitizeWord '' CAREER '' = sanitizeWord ''Career''"
proof -
  show "ok (fst (submitWord ''s1'' ''ROOMAA'' ''p_a'' ''Career'' 4000 0 gameServer))"
    by (simp add: submitWord_def Let_def gameServer_facts gameServer_game gameServer_more
          word_simps getPlayer_def socketOwnsPlayer_def SUBMIT_RATE_LIMIT_MS_def success_def)
  show "snd (submitWord ''s1'' ''ROOMAA'' ''p_a'' ''Career'' 4000 0 gameServer) = careerServer"
    by (simp add: careerServer_def)
  show "staysInMatch (sanitizeRoomCode ''ROOMAA'') [Tick 4500 (\<lambda>_. 0)] careerServer"
    by (simp add: careerServer_facts tick_def tickRoom_def word_simps turn_simps
          gameServer_facts gameServer_game gameServer_more)
  show "sanitizeRoomCode ''roomaa'' = sanitizeRoomCode ''ROOMAA''"
    and "sanitizeWord '' CAREER '' = sanitizeWord ''Career''"
    by (simp_all add: word_simps)
qed

theorem used_word_is_rejected_witness:
  "\<not> ok (fst (submitWord ''s2'' ''ROOMAA'' ''p_b'' '' CAREER '' 5000 0 careerServer)) \<and>
   error (fst (submitWord ''s2'' ''ROOMAA'' ''p_b'' '' CAREER '' 5000 0 careerServer)) =
     Some ''Word already used in this match.'' \<and>
   rooms (snd (submitWord ''s2'' ''ROOMAA'' ''p_b'' '' CAREER '' 5000 0 careerServer)) =
     rooms careerServer \<and>
   ok (fst (submitWord ''s1'' ''ROOMAA'' ''p_a'' ''Career'' 4000 0 gameServer)) \<and>
   \<not> ok (fst (submitWord ''s2'' ''roomaa'' ''p_b'' '' CAREER '' 5000 0
               (run [Tick 4500 (\<lambda>_. 0)] careerServer)))"
proof -
  have a: "\<not> ok (fst (submitWord ''s2'' ''ROOMAA'' ''p_b'' '' CAREER '' 5000 0 careerServer)) \<and>
      error (fst (submitWord ''s2'' ''ROOMAA'' ''p_b'' '' CAREER '' 5000 0 careerServer)) =
        Some ''Word already used in this match.'' \<and>
      rooms (snd (submitWord ''s2'' ''ROOMAA'' ''p_b'' '' CAREER '' 5000 0 careerServer)) =
        rooms careerServer"
    using used_word_is_rejected [where s = careerServer and rc = "''ROOMAA''"
        and room = "roomOf careerServer" and w = "'' CAREER ''" and sock = "''s2''"
        and pl = "''p_b''" and now = 5000 and rnd = 0]
      careerRoom_facts
    by (auto split: option.splits)
  have b: "\<not> ok (fst (submitWord ''s2'' ''roomaa'' ''p_b'' '' CAREER '' 5000 0
               (run [Tick 4500 (\<lambda>_. 0)] careerServer)))"
    using used_word_is_rejected [where s = gameServer and rc = "''ROOMAA''"
        and w = "''Career''" and sock = "''s1''" and pl = "''p_a''" and now = 4000 and rnd = 0
        and es = "[Tick 4500 (\<lambda>_. 0)]" and rc' = "''roomaa''" and w' = "'' CAREER ''"
        and sock' = "''s2''" and pl' = "''p_b''" and now' = 5000 and rnd' = 0]
      careerServer_run
    by (simp only:) blast
  from a b careerServer_run(1) show ?thesis by blast
qed

end
